theory Spec2Isabelle
  imports Main "HOL-Library.AList"
begin

unbundle bit_operations_syntax

section \<open>Python values that travel through the translator\<close>

text \<open>
  The enumerations below are declared by the adapter library (\<open>lifesospy.enums\<close>);
  \<open>translator.py\<close> only names some of their members. Each datatype lists the members the
  translator names and keeps one more constructor for every other member of the
  enumeration, by its name.
\<close>

datatype BaseUnitState =
    BaseUnitState_Disarm
  | BaseUnitState_Home
  | BaseUnitState_Away
  | BaseUnitState_Monitor
  | BaseUnitState_AwayExitDelay
  | BaseUnitState_AwayEntryDelay
  | BaseUnitState_Other string

datatype OperationMode =
    OperationMode_Disarm
  | OperationMode_Home
  | OperationMode_Away
  | OperationMode_Other string

datatype DeviceEventCode =
    DeviceEventCode_BatteryLow
  | DeviceEventCode_PowerOnReset
  | DeviceEventCode_Tamper
  | DeviceEventCode_Trigger
  | DeviceEventCode_Other string

datatype DeviceType =
    DeviceType_DoorMagnet
  | DeviceType_SmokeDetector
  | DeviceType_PIRSensor
  | DeviceType_Other string

datatype EventQualifier = EventQualifier_Event | EventQualifier_Restore | EventQualifier_Other string

datatype EventCategory = EventCategory_Alarm | EventCategory_Other string

text \<open>
  Modelled from the spec: the enumerations \<open>OnOff\<close> and \<open>OpenClosed\<close> of
  \<open>lifesospy_mqtt.enums\<close> are not among the sources; the spec has the device topic carry
  On or Off, and Open or Closed for a door magnet.
\<close>

datatype OnOff = Off | On

datatype OpenClosed = Open | Closed

text \<open>
  One universe for the values the code passes around untyped (\<open>Any\<close>): property values,
  publish payloads and log arguments. \<open>PyObject\<close> is an object seen only through its
  \<open>as_dict()\<close>; \<open>PyStrOf v\<close> is \<open>str(v)\<close> and \<open>PyJsonDumps v\<close> is \<open>json.dumps(v)\<close>, both
  kept symbolic because the rendering is done by library code. A Python \<open>str\<close> is held
  as the bytes of its UTF-8 encoding.
\<close>

datatype pyval =
    PyNone
  | PyBool bool
  | PyInt int
  | PyStr string
  | PyBaseUnitState BaseUnitState
  | PyOperationMode OperationMode
  | PyDeviceEventCode DeviceEventCode
  | PyDeviceType DeviceType
  | PyOnOff OnOff
  | PyOpenClosed OpenClosed
  | PyTimedelta int
  | PyDevice int
  | PyDict "(string \<times> pyval) list"
  | PyObject "(string \<times> pyval) list"
  | PyStrOf pyval
  | PyJsonDumps pyval

datatype exc =
    TypeError
  | KeyError
  | AttributeError
  | ValueError
  | UnicodeDecodeError
  | NotImplementedError

section \<open>Configuration (config.py)\<close>

text \<open>
  \<open>TranslatorDeviceConfig\<close>, \<open>TranslatorBaseUnitConfig\<close> and \<open>TranslatorConfig\<close>. A topic is
  read with \<open>settings[CONF_TOPIC]\<close> and annotated \<open>str\<close>; the settings read with
  \<open>settings.get\<close> are \<open>None\<close> when the key is absent.
\<close>

record TranslatorDeviceConfig =
  device_topic :: string
  auto_reset_interval :: "int option"
  device_info :: "(string \<times> pyval) list option"

record TranslatorBaseUnitConfig =
  baseunit_topic :: string
  baseunit_device_info :: "(string \<times> pyval) list option"

record TranslatorConfig =
  birth_payload :: "string option"
  birth_topic :: "string option"
  discovery_prefix :: "string option"
  baseunit :: TranslatorBaseUnitConfig
  devices :: "(int \<times> TranslatorDeviceConfig) list"

text \<open>Truth value of an optional \<open>str\<close>: \<open>None\<close> and the empty string are false.\<close>

fun truthy_str :: "string option \<Rightarrow> bool" where
  "truthy_str None = False"
| "truthy_str (Some s) = (s \<noteq> [])"

text \<open>\<open>'{}'.format(x)\<close> for an optional \<open>str\<close>.\<close>

fun format_str :: "string option \<Rightarrow> string" where
  "format_str None = ''None''"
| "format_str (Some s) = s"

section \<open>Constants\<close>

text \<open>
  Modelled from the spec: \<open>QOS_1\<close> of \<open>lifesospy_mqtt.const\<close> is not among the sources;
  the spec gives the level of every publish and subscription as at-least-once.
\<close>

definition QOS_1 :: nat where
  "QOS_1 = 1"

definition AUTO_RESET_INTERVAL :: int where
  "AUTO_RESET_INTERVAL = 30"

definition STATE_ARMED_AWAY :: string where "STATE_ARMED_AWAY = ''armed_away''"
definition STATE_ARMED_HOME :: string where "STATE_ARMED_HOME = ''armed_home''"
definition STATE_DISARMED :: string where "STATE_DISARMED = ''disarmed''"
definition STATE_PENDING :: string where "STATE_PENDING = ''pending''"
definition STATE_TRIGGERED :: string where "STATE_TRIGGERED = ''triggered''"

definition TOPIC_CLEAR_STATUS :: string where "TOPIC_CLEAR_STATUS = ''clear_status''"
definition TOPIC_DATETIME :: string where "TOPIC_DATETIME = ''datetime''"
definition TOPIC_STATE :: string where "TOPIC_STATE = ''ha_state''"
definition TOPIC_SET :: string where "TOPIC_SET = ''set''"

text \<open>
  Modelled from the spec: the property-name constants \<open>BaseUnit.PROP_*\<close>,
  \<open>Device.PROP_*\<close> and \<open>SpecialDevice.PROP_*\<close> are declared by the adapter library. The
  spec's topic table and allow-lists give the names.
\<close>

definition PROP_STATE :: string where "PROP_STATE = ''state''"
definition PROP_IS_CONNECTED :: string where "PROP_IS_CONNECTED = ''is_connected''"
definition PROP_ROM_VERSION :: string where "PROP_ROM_VERSION = ''rom_version''"
definition PROP_EXIT_DELAY :: string where "PROP_EXIT_DELAY = ''exit_delay''"
definition PROP_ENTRY_DELAY :: string where "PROP_ENTRY_DELAY = ''entry_delay''"
definition PROP_OPERATION_MODE :: string where "PROP_OPERATION_MODE = ''operation_mode''"

definition PROP_IS_CLOSED :: string where "PROP_IS_CLOSED = ''is_closed''"
definition PROP_CURRENT_READING :: string where "PROP_CURRENT_READING = ''current_reading''"
definition PROP_CATEGORY :: string where "PROP_CATEGORY = ''category''"
definition PROP_CHARACTERISTICS :: string where "PROP_CHARACTERISTICS = ''characteristics''"
definition PROP_ENABLE_STATUS :: string where "PROP_ENABLE_STATUS = ''enable_status''"
definition PROP_SWITCHES :: string where "PROP_SWITCHES = ''switches''"
definition PROP_SPECIAL_STATUS :: string where "PROP_SPECIAL_STATUS = ''special_status''"
definition PROP_DEVICE_ID :: string where "PROP_DEVICE_ID = ''device_id''"
definition PROP_ZONE :: string where "PROP_ZONE = ''zone''"
definition PROP_TYPE :: string where "PROP_TYPE = ''type''"
definition PROP_RSSI_DB :: string where "PROP_RSSI_DB = ''rssi_db''"
definition PROP_RSSI_BARS :: string where "PROP_RSSI_BARS = ''rssi_bars''"
definition PROP_HIGH_LIMIT :: string where "PROP_HIGH_LIMIT = ''high_limit''"
definition PROP_LOW_LIMIT :: string where "PROP_LOW_LIMIT = ''low_limit''"
definition PROP_CONTROL_LIMIT_FIELDS_EXIST :: string where
  "PROP_CONTROL_LIMIT_FIELDS_EXIST = ''control_limit_fields_exist''"
definition PROP_CONTROL_HIGH_LIMIT :: string where "PROP_CONTROL_HIGH_LIMIT = ''control_high_limit''"
definition PROP_CONTROL_LOW_LIMIT :: string where "PROP_CONTROL_LOW_LIMIT = ''control_low_limit''"

section \<open>The translator's state and its effects\<close>

datatype level = DEBUG | INFO | WARNING | ERROR

text \<open>The adapter commands the translator hands to \<open>loop.create_task\<close>.\<close>

datatype command =
    async_set_operation_mode OperationMode
  | async_clear_status
  | async_set_datetime "int option"

text \<open>
  Every call the translator makes on a collaborator, in the order the calls are made:
  \<open>mqtt.publish(topic, payload, qos, retain)\<close>, \<open>mqtt.subscribe(topic, qos)\<close>, a logger
  call, \<open>loop.create_task\<close>, \<open>loop.call_later(delay, _auto_reset, device_id)\<close> with the
  handle it returned, \<open>handle.cancel()\<close>, the two callback slots of a device object
  being set (True) or cleared (False), and the three calls of \<open>async_stop\<close> that stop the
  collaborators.
\<close>

datatype effect =
    Publish string pyval nat bool
  | Subscribe string nat
  | Log level string "pyval list"
  | CreateTask command
  | CallLater nat int int
  | Cancel nat
  | SetCallbacks int bool
  | BaseUnitStop
  | MqttLoopStop
  | MqttDisconnect

text \<open>
  A timer the event loop holds for \<open>call_later\<close>: its handle, the time it is due, the
  device id the callback will get, and whether \<open>cancel()\<close> was called on the handle.
\<close>

record timer =
  handle :: nat
  due :: int
  arg :: int
  cancelled :: bool

text \<open>
  The fields of \<open>Translator\<close> that its methods write, the event loop's timers, and the
  trace of effects. \<open>auto_reset_handles\<close> is the dict \<open>_auto_reset_handles\<close>, kept in
  insertion order.
\<close>

record translator =
  shutdown :: bool
  auto_reset_handles :: "(int \<times> nat) list"
  state :: pyval
  ha_state :: "string option"
  mqtt_was_connected :: bool
  mqtt_last_connection :: "int option"
  mqtt_last_disconnection :: "int option"
  timers :: "timer list"
  next_handle :: nat
  trace :: "effect list"

text \<open>The state \<open>__init__\<close> leaves.\<close>

definition init :: translator where
  "init = \<lparr>shutdown = False, auto_reset_handles = [], state = PyNone, ha_state = None,
     mqtt_was_connected = False, mqtt_last_connection = None,
     mqtt_last_disconnection = None, timers = [], next_handle = 0, trace = []\<rparr>"

definition publish :: "string \<Rightarrow> pyval \<Rightarrow> bool \<Rightarrow> translator \<Rightarrow> translator" where
  "publish topic payload retain s = s\<lparr>trace := trace s @ [Publish topic payload QOS_1 retain]\<rparr>"

definition log :: "level \<Rightarrow> string \<Rightarrow> pyval list \<Rightarrow> translator \<Rightarrow> translator" where
  "log lv msg args s = s\<lparr>trace := trace s @ [Log lv msg args]\<rparr>"

definition create_task :: "command \<Rightarrow> translator \<Rightarrow> translator" where
  "create_task c s = s\<lparr>trace := trace s @ [CreateTask c]\<rparr>"

text \<open>The payloads published to one topic, with their retain flags, in order.\<close>

fun published_at :: "string \<Rightarrow> effect list \<Rightarrow> (pyval \<times> bool) list" where
  "published_at t [] = []"
| "published_at t (Publish t' p q r # es) =
     (if t' = t then (p, r) # published_at t es else published_at t es)"
| "published_at t (e # es) = published_at t es"

text \<open>Every publish of a trace, whatever its topic.\<close>

fun publishes :: "effect list \<Rightarrow> effect list" where
  "publishes [] = []"
| "publishes (Publish t p q r # es) = Publish t p q r # publishes es"
| "publishes (e # es) = publishes es"

text \<open>The adapter commands of a trace.\<close>

fun commands :: "effect list \<Rightarrow> command list" where
  "commands [] = []"
| "commands (CreateTask c # es) = c # commands es"
| "commands (e # es) = commands es"

section \<open>Base unit: property changes\<close>

text \<open>
  A method that can raise returns the exception with the state reached when it was raised:
  the effects already made stay made.
\<close>

type_synonym outcome = "exc option \<times> translator"

definition and_then :: "outcome \<Rightarrow> (translator \<Rightarrow> outcome) \<Rightarrow> outcome" where
  "and_then r f = (case r of (None, s) \<Rightarrow> f s | (Some e, s) \<Rightarrow> (Some e, s))"

text \<open>A value that can be looked up in a set: every value of this universe but a dict.\<close>

fun hashable :: "pyval \<Rightarrow> bool" where
  "hashable (PyDict d) = False"
| "hashable v = True"

text \<open>
  \<open>Translator._publish_baseunit_property\<close>. The adapter passes the state as a member of
  \<open>BaseUnitState\<close>; an integer equal to the value of a member would compare equal to it in
  Python, and the values are not in the sources, so integers match no member here. The
  first membership test raises \<open>TypeError\<close> on an unhashable value.
\<close>

definition publish_baseunit_property ::
  "TranslatorConfig \<Rightarrow> string \<Rightarrow> pyval \<Rightarrow> translator \<Rightarrow> outcome" where
  "publish_baseunit_property cfg name v s =
    (let topic_parent = baseunit_topic (baseunit cfg) in
     if name = PROP_STATE then
       (let s1 = publish topic_parent v True (s\<lparr>state := v\<rparr>);
            topic = topic_parent @ ''/'' @ TOPIC_STATE
        in
        if \<not> hashable v then (Some TypeError, s1)
        else if v \<in> {PyBaseUnitState BaseUnitState_Disarm,
                       PyBaseUnitState BaseUnitState_Monitor} then
          (None, publish topic (PyStr STATE_DISARMED) True (s1\<lparr>ha_state := Some STATE_DISARMED\<rparr>))
        else if v = PyBaseUnitState BaseUnitState_Home then
          (None, publish topic (PyStr STATE_ARMED_HOME) True
                   (s1\<lparr>ha_state := Some STATE_ARMED_HOME\<rparr>))
        else if v = PyBaseUnitState BaseUnitState_Away then
          (None, publish topic (PyStr STATE_ARMED_AWAY) True
                   (s1\<lparr>ha_state := Some STATE_ARMED_AWAY\<rparr>))
        else if v \<in> {PyBaseUnitState BaseUnitState_AwayExitDelay,
                       PyBaseUnitState BaseUnitState_AwayEntryDelay} then
          (None, publish topic (PyStr STATE_PENDING) True (s1\<lparr>ha_state := Some STATE_PENDING\<rparr>))
        else (None, s1))
     else if name \<in> {PROP_IS_CONNECTED, PROP_ROM_VERSION, PROP_EXIT_DELAY, PROP_ENTRY_DELAY,
                      PROP_OPERATION_MODE} then
       (None, publish (topic_parent @ ''/'' @ name) v True s)
     else (None, s))"

section \<open>The adapter's objects\<close>

text \<open>
  A \<open>Device\<close> of the adapter as the translator reads it: \<open>device_id\<close>, \<open>type\<close> and whether
  it is an instance of \<open>SpecialDevice\<close>. \<open>BaseUnit\<close>: the current \<open>is_connected\<close> and the
  \<open>devices\<close> collection with its \<open>get\<close>.
\<close>

record Device =
  device_id :: int
  device_type :: DeviceType
  is_special :: bool

record BaseUnit =
  is_connected :: bool
  baseunit_devices :: "(int \<times> Device) list"

text \<open>
  A \<open>ContactID\<close> event: \<open>event_code\<close> is a member of an integer enumeration or \<open>None\<close>,
  held as its integer.
\<close>

record ContactID =
  event_code :: "int option"
  event_qualifier :: EventQualifier
  event_category :: EventCategory
  as_dict :: "(string \<times> pyval) list"

text \<open>
  Modelled from the spec: \<open>OnOff.parse_value\<close> of \<open>lifesospy_mqtt.enums\<close> is not among the
  sources. The spec has a trigger publish "On" (the code passes \<open>True\<close>) and the reset
  publish "Off" (the code passes \<open>False\<close>).
\<close>

definition OnOff_parse_value :: "bool \<Rightarrow> OnOff" where
  "OnOff_parse_value b = (if b then On else Off)"

text \<open>
  Truth value of a Python value. The members of the enumerations are integers whose
  values the sources do not show; they are taken as true, as every other object is.
\<close>

fun truthy :: "pyval \<Rightarrow> bool" where
  "truthy PyNone = False"
| "truthy (PyBool b) = b"
| "truthy (PyInt i) = (i \<noteq> 0)"
| "truthy (PyStr s) = (s \<noteq> [])"
| "truthy (PyTimedelta t) = (t \<noteq> 0)"
| "truthy (PyDict d) = (d \<noteq> [])"
| "truthy v = True"

text \<open>
  Modelled from the spec: \<open>OpenClosed.parse_value\<close> of \<open>lifesospy_mqtt.enums\<close> is not
  among the sources. The spec gives the boolean "is closed" of a door magnet the
  Open/Closed encoding: Closed when it is true.
\<close>

definition OpenClosed_parse_value :: "pyval \<Rightarrow> OpenClosed" where
  "OpenClosed_parse_value v = (if truthy v then Closed else Open)"

section \<open>Formatting\<close>

definition apostrophe :: string where
  "apostrophe = [char_of (39::nat)]"

definition hex_digit :: "nat \<Rightarrow> char" where
  "hex_digit d = ''0123456789abcdef'' ! d"

function hex_of_nat :: "nat \<Rightarrow> string" where
  "hex_of_nat n = (if n < 16 then [hex_digit n] else hex_of_nat (n div 16) @ [hex_digit (n mod 16)])"
  by pat_completeness auto
termination
  by (relation "measure id") auto

text \<open>\<open>'{:06x}'.format(n)\<close>: the sign counts in the width and the zeros follow it.\<close>

definition format_06x :: "int \<Rightarrow> string" where
  "format_06x n =
    (if n < 0 then
       (let d = hex_of_nat (nat (- n)) in ''-'' @ replicate (5 - length d) (CHR ''0'') @ d)
     else
       (let d = hex_of_nat (nat n) in replicate (6 - length d) (CHR ''0'') @ d))"

text \<open>\<open>{**a, **b}\<close>: the keys of \<open>a\<close> in order, each key of \<open>b\<close> replacing or following.\<close>

definition dict_merge :: "(string \<times> pyval) list \<Rightarrow> (string \<times> pyval) list \<Rightarrow> (string \<times> pyval) list" where
  "dict_merge a b = fold (\<lambda>(k, v). AList.update k v) b a"

section \<open>Discovery publisher\<close>

definition availability_topic :: "TranslatorConfig \<Rightarrow> string" where
  "availability_topic cfg = baseunit_topic (baseunit cfg) @ ''/'' @ PROP_IS_CONNECTED"

definition config_topic :: "TranslatorConfig \<Rightarrow> string \<Rightarrow> string \<Rightarrow> string" where
  "config_topic cfg platform unique_id =
     format_str (discovery_prefix cfg) @ ''/'' @ platform @ ''/'' @ unique_id @ ''/config''"

text \<open>\<open>Translator._add_device_identifiers\<close>: unpacking \<open>None\<close> raises \<open>TypeError\<close>.\<close>

definition add_device_identifiers ::
  "int \<Rightarrow> (string \<times> pyval) list option \<Rightarrow> exc + (string \<times> pyval) list" where
  "add_device_identifiers dev_id ha_device_info =
    (case ha_device_info of
       None \<Rightarrow> Inl TypeError
     | Some info \<Rightarrow> Inr (dict_merge info [(''identifiers'', PyStr (''LifeSOS_'' @ format_06x dev_id))]))"

text \<open>\<open>Translator._publish_baseunit_config\<close>.\<close>

definition publish_baseunit_config ::
  "TranslatorConfig \<Rightarrow> TranslatorBaseUnitConfig \<Rightarrow> translator \<Rightarrow> outcome" where
  "publish_baseunit_config cfg bc s =
    (case baseunit_device_info bc of
       None \<Rightarrow> (Some TypeError, s)
     | Some info \<Rightarrow>
         (None, publish (config_topic cfg ''alarm_control_panel'' ''lifesos_baseunit'')
           (PyJsonDumps (PyDict
             [(''name'', PyNone),
              (''object_id'', PyStr ''lifesos_baseunit''),
              (''unique_id'', PyStr ''lifesos_baseunit''),
              (''state_topic'', PyStr (baseunit_topic bc @ ''/'' @ TOPIC_STATE)),
              (''command_topic'',
                 PyStr (baseunit_topic bc @ ''/'' @ PROP_OPERATION_MODE @ ''/'' @ TOPIC_SET)),
              (''payload_disarm'', PyStrOf (PyOperationMode OperationMode_Disarm)),
              (''payload_arm_home'', PyStrOf (PyOperationMode OperationMode_Home)),
              (''payload_arm_away'', PyStrOf (PyOperationMode OperationMode_Away)),
              (''availability_topic'', PyStr (baseunit_topic bc @ ''/'' @ PROP_IS_CONNECTED)),
              (''payload_available'', PyStrOf (PyBool True)),
              (''payload_not_available'', PyStrOf (PyBool False)),
              (''device'', PyDict (dict_merge [(''identifiers'', PyStr ''lifesos_baseunit'')] info))]))
           False s))"

text \<open>\<open>Translator._publish_device_config\<close>.\<close>

definition publish_device_config ::
  "TranslatorConfig \<Rightarrow> Device \<Rightarrow> TranslatorDeviceConfig \<Rightarrow> translator \<Rightarrow> outcome" where
  "publish_device_config cfg dev dc s =
    (case add_device_identifiers (device_id dev) (device_info dc) of
       Inl e \<Rightarrow> (Some e, s)
     | Inr ids \<Rightarrow>
        (let unique_id = ''lifesos_'' @ format_06x (device_id dev);
             message =
               [(''name'', PyNone),
                (''object_id'', PyStr unique_id),
                (''unique_id'', PyStr unique_id),
                (''state_topic'', PyStr (device_topic dc)),
                (''availability_topic'', PyStr (availability_topic cfg)),
                (''payload_available'', PyStrOf (PyBool True)),
                (''payload_not_available'', PyStrOf (PyBool False)),
                (''device'', PyDict ids)]
         in
         if device_type dev = DeviceType_SmokeDetector then
           (None, publish (config_topic cfg ''binary_sensor'' unique_id)
              (PyJsonDumps (PyDict (message @
                 [(''device_class'', PyStr ''smoke''),
                  (''payload_on'', PyStrOf (PyOnOff On)),
                  (''payload_off'', PyStrOf (PyOnOff Off))]))) False s)
         else if device_type dev = DeviceType_DoorMagnet then
           (None, publish (config_topic cfg ''binary_sensor'' unique_id)
              (PyJsonDumps (PyDict (message @
                 [(''device_class'', PyStr ''door''),
                  (''payload_on'', PyStrOf (PyOpenClosed Open)),
                  (''payload_off'', PyStrOf (PyOpenClosed Closed))]))) False s)
         else if device_type dev = DeviceType_PIRSensor then
           (None, publish (config_topic cfg ''binary_sensor'' unique_id)
              (PyJsonDumps (PyDict (message @
                 [(''device_class'', PyStr ''motion''),
                  (''payload_on'', PyStrOf (PyOnOff On)),
                  (''payload_off'', PyStrOf (PyOnOff Off))]))) False s)
         else
           (None, log WARNING
              (''Device type '' @ apostrophe @ ''%s'' @ apostrophe @
                 '' cannot be represented in Home Assistant and will be skipped.'')
              [PyStrOf (PyDeviceType (device_type dev))] s)))"

text \<open>\<open>Translator._publish_device_rssi_config\<close>.\<close>

definition publish_device_rssi_config ::
  "TranslatorConfig \<Rightarrow> Device \<Rightarrow> TranslatorDeviceConfig \<Rightarrow> translator \<Rightarrow> outcome" where
  "publish_device_rssi_config cfg dev dc s =
    (case add_device_identifiers (device_id dev) (device_info dc) of
       Inl e \<Rightarrow> (Some e, s)
     | Inr ids \<Rightarrow>
        (let unique_id = ''lifesos_'' @ format_06x (device_id dev) @ ''_rssi'' in
         (None, publish (config_topic cfg ''sensor'' unique_id)
            (PyJsonDumps (PyDict
               [(''name'', PyStr ''RSSI''),
                (''object_id'', PyStr unique_id),
                (''unique_id'', PyStr unique_id),
                (''icon'', PyStr ''mdi:wifi''),
                (''state_topic'', PyStr (device_topic dc @ ''/'' @ PROP_RSSI_DB)),
                (''unit_of_measurement'', PyStr ''dB''),
                (''availability_topic'', PyStr (availability_topic cfg)),
                (''payload_available'', PyStrOf (PyBool True)),
                (''payload_not_available'', PyStrOf (PyBool False)),
                (''entity_category'', PyStr ''diagnostic''),
                (''device'', PyDict ids)])) False s)))"

text \<open>\<open>Translator._publish_device_battery_config\<close>.\<close>

definition publish_device_battery_config ::
  "TranslatorConfig \<Rightarrow> Device \<Rightarrow> TranslatorDeviceConfig \<Rightarrow> translator \<Rightarrow> outcome" where
  "publish_device_battery_config cfg dev dc s =
    (case add_device_identifiers (device_id dev) (device_info dc) of
       Inl e \<Rightarrow> (Some e, s)
     | Inr ids \<Rightarrow>
        (let unique_id = ''lifesos_'' @ format_06x (device_id dev) @ ''_battery'' in
         (None, publish (config_topic cfg ''binary_sensor'' unique_id)
            (PyJsonDumps (PyDict
               [(''name'', PyStr ''Battery''),
                (''object_id'', PyStr unique_id),
                (''unique_id'', PyStr unique_id),
                (''device_class'', PyStr ''battery''),
                (''payload_on'', PyStrOf (PyDeviceEventCode DeviceEventCode_BatteryLow)),
                (''payload_off'', PyStrOf (PyDeviceEventCode DeviceEventCode_PowerOnReset)),
                (''state_topic'', PyStr (device_topic dc @ ''/battery'')),
                (''availability_topic'', PyStr (availability_topic cfg)),
                (''payload_available'', PyStrOf (PyBool True)),
                (''payload_not_available'', PyStrOf (PyBool False)),
                (''entity_category'', PyStr ''diagnostic''),
                (''device'', PyDict ids)])) False s)))"

text \<open>The three discovery documents of one device, as both callers publish them.\<close>

definition publish_device_configs ::
  "TranslatorConfig \<Rightarrow> Device \<Rightarrow> TranslatorDeviceConfig \<Rightarrow> translator \<Rightarrow> outcome" where
  "publish_device_configs cfg dev dc s =
     and_then (and_then (publish_device_config cfg dev dc s)
                 (publish_device_rssi_config cfg dev dc))
       (publish_device_battery_config cfg dev dc)"

text \<open>
  The loop of \<open>_publish_ha_config\<close> over the configured devices, in the order of the dict.
\<close>

fun publish_ha_config_devices ::
  "TranslatorConfig \<Rightarrow> BaseUnit \<Rightarrow> (int \<times> TranslatorDeviceConfig) list \<Rightarrow> translator \<Rightarrow> outcome" where
  "publish_ha_config_devices cfg bu [] s = (None, s)"
| "publish_ha_config_devices cfg bu ((dev_id, dc) # rest) s =
    (if shutdown s then (None, s)
     else
       (case map_of (baseunit_devices bu) dev_id of
          None \<Rightarrow> publish_ha_config_devices cfg bu rest s
        | Some dev \<Rightarrow>
            if device_topic dc \<noteq> [] then
              and_then (publish_device_configs cfg dev dc s) (publish_ha_config_devices cfg bu rest)
            else publish_ha_config_devices cfg bu rest s))"

text \<open>\<open>Translator._publish_ha_config\<close>.\<close>

definition publish_ha_config :: "TranslatorConfig \<Rightarrow> BaseUnit \<Rightarrow> translator \<Rightarrow> outcome" where
  "publish_ha_config cfg bu s =
    (if \<not> truthy_str (discovery_prefix cfg) then (None, s)
     else
       and_then
         (if baseunit_topic (baseunit cfg) \<noteq> [] then publish_baseunit_config cfg (baseunit cfg) s
          else (None, s))
         (publish_ha_config_devices cfg bu (devices cfg)))"

section \<open>Base unit: notifications\<close>

text \<open>
  \<open>Translator._baseunit_properties_changed\<close>; a change is the pair of \<open>name\<close> and
  \<open>new_value\<close> of a \<open>PropertyChangedInfo\<close>.
\<close>

fun publish_baseunit_changes ::
  "TranslatorConfig \<Rightarrow> (string \<times> pyval) list \<Rightarrow> translator \<Rightarrow> outcome" where
  "publish_baseunit_changes cfg [] s = (None, s)"
| "publish_baseunit_changes cfg ((name, v) # rest) s =
     and_then (publish_baseunit_property cfg name v s) (publish_baseunit_changes cfg rest)"

definition has_connected :: "(string \<times> pyval) list \<Rightarrow> bool" where
  "has_connected changes = list_ex (\<lambda>(name, v). name = PROP_IS_CONNECTED \<and> truthy v) changes"

definition baseunit_properties_changed ::
  "TranslatorConfig \<Rightarrow> BaseUnit \<Rightarrow> (string \<times> pyval) list \<Rightarrow> translator \<Rightarrow> outcome" where
  "baseunit_properties_changed cfg bu changes s =
     and_then (publish_baseunit_changes cfg changes s)
       (\<lambda>s1. if has_connected changes then publish_ha_config cfg bu s1 else (None, s1))"

text \<open>\<open>Translator._baseunit_event\<close>.\<close>

definition baseunit_event :: "TranslatorConfig \<Rightarrow> ContactID \<Rightarrow> translator \<Rightarrow> translator" where
  "baseunit_event cfg contact_id s =
    (let b = baseunit_topic (baseunit cfg);
         s1 = publish (b @ ''/event'') (PyJsonDumps (PyDict (as_dict contact_id))) False s;
         s2 = (case event_code contact_id of
                 None \<Rightarrow> s1
               | Some c \<Rightarrow>
                   if c = 0 then s1
                   else if event_qualifier contact_id = EventQualifier_Event then
                     publish (b @ ''/event_code'') (PyInt c) False s1
                   else if event_qualifier contact_id = EventQualifier_Restore then
                     publish (b @ ''/restore_code'') (PyInt c) False s1
                   else s1)
     in
     if event_qualifier contact_id = EventQualifier_Event \<and>
        event_category contact_id = EventCategory_Alarm then
       publish (b @ ''/'' @ TOPIC_STATE) (PyStr STATE_TRIGGERED) True
         (s2\<lparr>ha_state := Some STATE_TRIGGERED\<rparr>)
     else s2)"

section \<open>The adapter library's functions and tables\<close>

text \<open>
  What the translator calls in libraries whose code is not among the sources, taken as
  parameters: \<open>OperationMode.parse_name\<close> (given \<open>None\<close> or a \<open>str\<close>, it returns a member
  or \<open>None\<close>), \<open>dateutil.parser.parse\<close>, and the four flag enumerations, each as the
  (name, value) pairs of the members that iterating the enumeration yields, in order.
\<close>

record library =
  parse_name :: "string option \<Rightarrow> OperationMode option"
  parse_datetime :: "string \<Rightarrow> exc + int"
  DCFlags :: "(string \<times> int) list"
  ESFlags :: "(string \<times> int) list"
  SwitchFlags :: "(string \<times> int) list"
  SSFlags :: "(string \<times> int) list"

section \<open>Devices: property changes\<close>

text \<open>
  The loop \<open>for item in iter(Flags): self._publish('{}/{}/{}'.format(topic_parent, name,
  item.name), bool(value & item.value), True)\<close> on an integer \<open>value\<close>.
\<close>

fun publish_flags ::
  "string \<Rightarrow> string \<Rightarrow> int \<Rightarrow> (string \<times> int) list \<Rightarrow> translator \<Rightarrow> translator" where
  "publish_flags topic_parent name v [] s = s"
| "publish_flags topic_parent name v ((item_name, item_value) # items) s =
     publish_flags topic_parent name v items
       (publish (topic_parent @ ''/'' @ name @ ''/'' @ item_name)
          (PyBool (v AND item_value \<noteq> 0)) True s)"

text \<open>
  The integer of a Python value for \<open>&\<close> and for the format code \<open>x\<close>: an \<open>int\<close> (a flag
  value is its integer) or a \<open>bool\<close>.
\<close>

fun int_of_pyval :: "pyval \<Rightarrow> int option" where
  "int_of_pyval (PyInt i) = Some i"
| "int_of_pyval (PyBool b) = Some (if b then 1 else 0)"
| "int_of_pyval v = None"

text \<open>A flag property: \<open>value & item.value\<close> raises \<open>TypeError\<close> on a value with no integer.\<close>

definition publish_flag_property ::
  "string \<Rightarrow> string \<Rightarrow> pyval \<Rightarrow> (string \<times> int) list \<Rightarrow> translator \<Rightarrow> outcome" where
  "publish_flag_property topic_parent name v flags s =
    (if flags = [] then (None, s)
     else
       (case int_of_pyval v of
          None \<Rightarrow> (Some TypeError, s)
        | Some i \<Rightarrow> (None, publish_flags topic_parent name i flags s)))"

text \<open>The loop over \<open>value.as_dict().items()\<close> of the category property.\<close>

fun publish_category_items ::
  "string \<Rightarrow> string \<Rightarrow> (string \<times> pyval) list \<Rightarrow> translator \<Rightarrow> translator" where
  "publish_category_items topic_parent name [] s = s"
| "publish_category_items topic_parent name ((k, x) # items) s =
     publish_category_items topic_parent name items
       (if k \<in> {''code'', ''description''} then
          publish (topic_parent @ ''/'' @ name @ ''/'' @ k) x True s
        else s)"

text \<open>\<open>Translator._publish_device_property\<close>.\<close>

definition publish_device_property ::
  "library \<Rightarrow> string \<Rightarrow> Device \<Rightarrow> string \<Rightarrow> pyval \<Rightarrow> translator \<Rightarrow> outcome" where
  "publish_device_property lib topic_parent dev name v s =
    (if \<not> is_special dev \<and> name = PROP_IS_CLOSED then
       (if device_type dev = DeviceType_DoorMagnet then
          (None, publish topic_parent (PyOpenClosed (OpenClosed_parse_value v)) True s)
        else (None, publish topic_parent (PyOnOff Off) True s))
     else if is_special dev \<and> name = PROP_CURRENT_READING then
       (None, publish topic_parent v True s)
     else if name = PROP_CATEGORY then
       (case v of
          PyObject d \<Rightarrow> (None, publish_category_items topic_parent name d s)
        | _ \<Rightarrow> (Some AttributeError, s))
     else if name = PROP_CHARACTERISTICS then
       publish_flag_property topic_parent name v (DCFlags lib) s
     else if name = PROP_ENABLE_STATUS then
       publish_flag_property topic_parent name v (ESFlags lib) s
     else if name = PROP_SWITCHES then
       publish_flag_property topic_parent name v (SwitchFlags lib) s
     else if name = PROP_SPECIAL_STATUS then
       publish_flag_property topic_parent name v (SSFlags lib) s
     else if name = PROP_DEVICE_ID then
       (case int_of_pyval v of
          Some i \<Rightarrow> (None, publish (topic_parent @ ''/'' @ name) (PyStr (format_06x i)) True s)
        | None \<Rightarrow> (Some (case v of PyStr x \<Rightarrow> ValueError | _ \<Rightarrow> TypeError), s))
     else if name \<in> {PROP_DEVICE_ID, PROP_ZONE, PROP_TYPE, PROP_RSSI_DB, PROP_RSSI_BARS,
                      PROP_HIGH_LIMIT, PROP_LOW_LIMIT, PROP_CONTROL_LIMIT_FIELDS_EXIST,
                      PROP_CONTROL_HIGH_LIMIT, PROP_CONTROL_LOW_LIMIT} then
       (None, publish (topic_parent @ ''/'' @ name) v True s)
     else (None, s))"

fun publish_device_changes ::
  "library \<Rightarrow> string \<Rightarrow> Device \<Rightarrow> (string \<times> pyval) list \<Rightarrow> translator \<Rightarrow> outcome" where
  "publish_device_changes lib topic_parent dev [] s = (None, s)"
| "publish_device_changes lib topic_parent dev ((name, v) # rest) s =
     and_then (publish_device_property lib topic_parent dev name v s)
       (publish_device_changes lib topic_parent dev rest)"

text \<open>\<open>Translator._device_on_properties_changed\<close>.\<close>

definition device_on_properties_changed ::
  "TranslatorConfig \<Rightarrow> library \<Rightarrow> Device \<Rightarrow> (string \<times> pyval) list \<Rightarrow> translator \<Rightarrow> outcome" where
  "device_on_properties_changed cfg lib dev changes s =
    (case map_of (devices cfg) (device_id dev) of
       None \<Rightarrow> (None, s)
     | Some dc \<Rightarrow>
         if device_topic dc \<noteq> [] then publish_device_changes lib (device_topic dc) dev changes s
         else (None, s))"

section \<open>Devices: events and the auto reset\<close>

text \<open>
  \<open>handle.cancel()\<close> marks the loop's timer; \<open>loop.call_later\<close> at time \<open>now\<close> adds a timer
  due \<open>delay\<close> later and returns its handle.
\<close>

definition cancel :: "nat \<Rightarrow> translator \<Rightarrow> translator" where
  "cancel h s =
     s\<lparr>timers := map (\<lambda>t. if handle t = h then t\<lparr>cancelled := True\<rparr> else t) (timers s),
       trace := trace s @ [Cancel h]\<rparr>"

definition call_later :: "int \<Rightarrow> int \<Rightarrow> int \<Rightarrow> translator \<Rightarrow> nat \<times> translator" where
  "call_later now delay dev_id s =
     (next_handle s,
      s\<lparr>timers := timers s @
           [\<lparr>handle = next_handle s, due = now + delay, arg = dev_id, cancelled = False\<rparr>],
        next_handle := Suc (next_handle s),
        trace := trace s @ [CallLater (next_handle s) delay dev_id]\<rparr>)"

text \<open>\<open>device_config.auto_reset_interval or Translator.AUTO_RESET_INTERVAL\<close>.\<close>

definition interval_or_default :: "int option \<Rightarrow> int" where
  "interval_or_default i =
     (case i of None \<Rightarrow> AUTO_RESET_INTERVAL
      | Some n \<Rightarrow> if n = 0 then AUTO_RESET_INTERVAL else n)"

text \<open>\<open>Translator._device_on_event\<close>, called at time \<open>now\<close>.\<close>

definition device_on_event ::
  "TranslatorConfig \<Rightarrow> int \<Rightarrow> Device \<Rightarrow> DeviceEventCode \<Rightarrow> translator \<Rightarrow> translator" where
  "device_on_event cfg now dev ec s =
    (case map_of (devices cfg) (device_id dev) of
       None \<Rightarrow> s
     | Some dc \<Rightarrow>
         if device_topic dc = [] then s
         else
           (let s1 = publish (device_topic dc @ ''/event_code'') (PyDeviceEventCode ec) False s;
                s2 = (if ec \<in> {DeviceEventCode_BatteryLow, DeviceEventCode_PowerOnReset} then
                        publish (device_topic dc @ ''/battery'') (PyDeviceEventCode ec) True s1
                      else s1);
                s3 = (if ec = DeviceEventCode_Tamper then
                        publish (device_topic dc @ ''/tamper'') (PyBool True) False s2
                      else s2)
            in
            if ec = DeviceEventCode_Trigger then
              (let s4 = publish (device_topic dc) (PyOnOff (OnOff_parse_value True)) True s3;
                   s5 = (case map_of (auto_reset_handles s4) (device_id dev) of
                           None \<Rightarrow> s4
                         | Some h \<Rightarrow> cancel h s4);
                   (h', s6) = call_later now (interval_or_default (auto_reset_interval dc))
                                (device_id dev) s5
               in s6\<lparr>auto_reset_handles :=
                        AList.update (device_id dev) h' (auto_reset_handles s6)\<rparr>)
            else s3))"

text \<open>\<open>Translator._auto_reset\<close>: \<open>pop\<close> of a key the dict does not hold raises \<open>KeyError\<close>.\<close>

definition auto_reset :: "TranslatorConfig \<Rightarrow> int \<Rightarrow> translator \<Rightarrow> outcome" where
  "auto_reset cfg dev_id s =
    (let s1 = (case map_of (devices cfg) dev_id of
                 None \<Rightarrow> s
               | Some dc \<Rightarrow>
                   if device_topic dc \<noteq> [] then
                     publish (device_topic dc) (PyOnOff (OnOff_parse_value False)) True s
                   else s)
     in
     if map_of (auto_reset_handles s1) dev_id = None then (Some KeyError, s1)
     else (None, s1\<lparr>auto_reset_handles := AList.delete dev_id (auto_reset_handles s1)\<rparr>))"

text \<open>
  The event loop running the callback of the timer with handle \<open>h\<close> at time \<open>now\<close>: it runs
  a timer it holds, once, when the timer is due and was not cancelled; otherwise nothing
  happens.
\<close>

definition run_timer :: "TranslatorConfig \<Rightarrow> int \<Rightarrow> nat \<Rightarrow> translator \<Rightarrow> outcome" where
  "run_timer cfg now h s =
    (case find (\<lambda>t. handle t = h) (timers s) of
       None \<Rightarrow> (None, s)
     | Some t \<Rightarrow>
         if cancelled t \<or> now < due t then (None, s)
         else auto_reset cfg (arg t) (s\<lparr>timers := filter (\<lambda>u. handle u \<noteq> h) (timers s)\<rparr>))"

text \<open>
  The loop of \<open>async_stop\<close> over \<open>self._auto_reset_handles.copy().items()\<close>, and
  \<open>Translator.async_stop\<close>.
\<close>

fun cancel_outstanding :: "(int \<times> nat) list \<Rightarrow> translator \<Rightarrow> outcome" where
  "cancel_outstanding [] s = (None, s)"
| "cancel_outstanding ((k, h) # items) s =
    (let s1 = cancel h s in
     if map_of (auto_reset_handles s1) k = None then (Some KeyError, s1)
     else cancel_outstanding items
            (s1\<lparr>auto_reset_handles := AList.delete k (auto_reset_handles s1)\<rparr>))"

definition async_stop :: "translator \<Rightarrow> outcome" where
  "async_stop s =
     and_then (cancel_outstanding (auto_reset_handles s) (s\<lparr>trace := trace s @ [BaseUnitStop]\<rparr>))
       (\<lambda>s'. (None, s'\<lparr>trace := trace s' @ [MqttLoopStop, MqttDisconnect]\<rparr>))"

text \<open>\<open>Translator._baseunit_device_added\<close> and \<open>Translator._baseunit_device_deleted\<close>.\<close>

definition baseunit_device_added :: "TranslatorConfig \<Rightarrow> Device \<Rightarrow> translator \<Rightarrow> outcome" where
  "baseunit_device_added cfg dev s =
    (let s1 = s\<lparr>trace := trace s @ [SetCallbacks (device_id dev) True]\<rparr> in
     case map_of (devices cfg) (device_id dev) of
       None \<Rightarrow>
         (None, log INFO ''Ignoring device as it was not listed in the config file: %s''
                  [PyDevice (device_id dev)] s1)
     | Some dc \<Rightarrow>
         if truthy_str (discovery_prefix cfg) \<and> device_topic dc \<noteq> [] then
           publish_device_configs cfg dev dc s1
         else (None, s1))"

definition baseunit_device_deleted :: "Device \<Rightarrow> translator \<Rightarrow> translator" where
  "baseunit_device_deleted dev s = s\<lparr>trace := trace s @ [SetCallbacks (device_id dev) False]\<rparr>"

section \<open>Broker connection\<close>

text \<open>
  Modelled from the spec: the class \<open>SubscribeTopic\<close> of \<open>lifesospy_mqtt.subscribetopic\<close> is
  not among the sources. The spec gives it a topic string, a handler reference, an
  optional argument and a QoS, the QoS of every subscription being at-least-once.
\<close>

datatype handler =
    on_message_clear_status_handler
  | on_message_set_datetime_handler
  | on_message_baseunit_handler
  | on_message_handler

record SubscribeTopic =
  st_topic :: string
  st_on_message :: handler
  st_args :: "string option"
  st_qos :: nat

text \<open>The list \<open>_subscribetopics\<close> that \<open>__init__\<close> builds.\<close>

definition subscribetopics :: "TranslatorConfig \<Rightarrow> SubscribeTopic list" where
  "subscribetopics cfg =
     [\<lparr>st_topic = baseunit_topic (baseunit cfg) @ ''/'' @ TOPIC_CLEAR_STATUS,
       st_on_message = on_message_clear_status_handler, st_args = None, st_qos = QOS_1\<rparr>,
      \<lparr>st_topic = baseunit_topic (baseunit cfg) @ ''/'' @ TOPIC_DATETIME @ ''/'' @ TOPIC_SET,
       st_on_message = on_message_set_datetime_handler, st_args = None, st_qos = QOS_1\<rparr>,
      \<lparr>st_topic = baseunit_topic (baseunit cfg) @ ''/'' @ PROP_OPERATION_MODE @ ''/'' @ TOPIC_SET,
       st_on_message = on_message_baseunit_handler, st_args = Some PROP_OPERATION_MODE,
       st_qos = QOS_1\<rparr>]
     @ (case birth_topic cfg of
          None \<Rightarrow> []
        | Some t \<Rightarrow>
            if t \<noteq> [] then
              [\<lparr>st_topic = t, st_on_message = on_message_handler, st_args = None,
                st_qos = QOS_1\<rparr>]
            else [])"

text \<open>The constants \<open>CONNACK_ACCEPTED\<close> and \<open>MQTT_ERR_SUCCESS\<close> of the broker client library.\<close>

definition CONNACK_ACCEPTED :: int where "CONNACK_ACCEPTED = 0"
definition MQTT_ERR_SUCCESS :: int where "MQTT_ERR_SUCCESS = 0"

definition subscribe_all :: "SubscribeTopic list \<Rightarrow> translator \<Rightarrow> translator" where
  "subscribe_all sts s = s\<lparr>trace := trace s @ map (\<lambda>st. Subscribe (st_topic st) (st_qos st)) sts\<rparr>"

text \<open>
  \<open>Translator._mqtt_on_connect\<close>, with \<open>datetime.now()\<close> as \<open>now\<close>. Subtracting \<open>None\<close>
  from a \<open>datetime\<close> raises inside the \<open>try\<close>, which logs the plain warning. The text of
  \<open>connack_string(result_code)\<close> is the library's and stays symbolic.
\<close>

definition mqtt_on_connect ::
  "TranslatorConfig \<Rightarrow> BaseUnit \<Rightarrow> int \<Rightarrow> int \<Rightarrow> translator \<Rightarrow> translator" where
  "mqtt_on_connect cfg bu now result_code s =
    (if result_code \<noteq> CONNACK_ACCEPTED then log WARNING ''connack_string'' [PyInt result_code] s
     else
       (let s1 = s\<lparr>mqtt_last_connection := Some now\<rparr>;
            s2 = (if \<not> mqtt_was_connected s1 then
                    (log DEBUG ''MQTT client connected to broker'' [] s1)
                      \<lparr>mqtt_was_connected := True\<rparr>
                  else
                    (case mqtt_last_disconnection s1 of
                       Some d \<Rightarrow>
                         log WARNING
                           ''MQTT client reconnected to broker. Outage duration was %s''
                           [PyStrOf (PyTimedelta (now - d))] s1
                     | None \<Rightarrow> log WARNING ''MQTT client reconnected to broker'' [] s1));
            s3 = publish (baseunit_topic (baseunit cfg) @ ''/'' @ PROP_IS_CONNECTED)
                   (PyBool (is_connected bu)) True s2
        in subscribe_all (subscribetopics cfg) s3))"

text \<open>\<open>Translator._mqtt_on_disconnect\<close>.\<close>

definition mqtt_on_disconnect :: "int \<Rightarrow> int \<Rightarrow> translator \<Rightarrow> translator" where
  "mqtt_on_disconnect now result_code s =
    (if result_code \<noteq> MQTT_ERR_SUCCESS then
       (log WARNING
          ''MQTT client lost connection to broker (RC: %i). Will attempt to reconnect periodically''
          [PyInt result_code] s)\<lparr>mqtt_last_disconnection := Some now\<rparr>
     else s)"

section \<open>Inbound messages\<close>

text \<open>
  \<open>bytes.decode()\<close>: strict UTF-8. With a \<open>str\<close> held as its UTF-8 bytes, decoding checks
  the bytes and keeps them. The byte ranges are those of well-formed UTF-8: no overlong
  form, no surrogate, nothing above U+10FFFF.
\<close>

definition byte :: "char \<Rightarrow> nat" where
  "byte c = of_char c"

definition is_continuation :: "char \<Rightarrow> bool" where
  "is_continuation c = (128 \<le> byte c \<and> byte c \<le> 191)"

fun valid_utf8 :: "string \<Rightarrow> bool" where
  "valid_utf8 [] = True"
| "valid_utf8 (c # cs) =
    (let b = byte c in
     if b < 128 then valid_utf8 cs
     else if 194 \<le> b \<and> b \<le> 223 then
       (case cs of
          c1 # r \<Rightarrow> is_continuation c1 \<and> valid_utf8 r
        | _ \<Rightarrow> False)
     else if 224 \<le> b \<and> b \<le> 239 then
       (case cs of
          c1 # c2 # r \<Rightarrow>
            (if b = 224 then 160 \<le> byte c1 \<and> byte c1 \<le> 191
             else if b = 237 then 128 \<le> byte c1 \<and> byte c1 \<le> 159
             else is_continuation c1)
            \<and> is_continuation c2 \<and> valid_utf8 r
        | _ \<Rightarrow> False)
     else if 240 \<le> b \<and> b \<le> 244 then
       (case cs of
          c1 # c2 # c3 # r \<Rightarrow>
            (if b = 240 then 144 \<le> byte c1 \<and> byte c1 \<le> 191
             else if b = 244 then 128 \<le> byte c1 \<and> byte c1 \<le> 143
             else is_continuation c1)
            \<and> is_continuation c2 \<and> is_continuation c3 \<and> valid_utf8 r
        | _ \<Rightarrow> False)
     else False)"

text \<open>\<open>None if not message.payload else message.payload.decode()\<close>.\<close>

definition decode_payload :: "string \<Rightarrow> exc + string option" where
  "decode_payload payload =
    (if payload = [] then Inr None
     else if valid_utf8 payload then Inr (Some payload)
     else Inl UnicodeDecodeError)"

fun pyval_of_name :: "string option \<Rightarrow> pyval" where
  "pyval_of_name None = PyNone"
| "pyval_of_name (Some n) = PyStr n"

text \<open>\<open>Translator._on_message_baseunit\<close>.\<close>

definition on_message_baseunit ::
  "TranslatorConfig \<Rightarrow> library \<Rightarrow> SubscribeTopic \<Rightarrow> string \<Rightarrow> translator \<Rightarrow> outcome" where
  "on_message_baseunit cfg lib subscribetopic payload s =
    (if st_args subscribetopic = Some PROP_OPERATION_MODE then
       (case decode_payload payload of
          Inl e \<Rightarrow> (Some e, s)
        | Inr name \<Rightarrow>
            (case parse_name lib name of
               None \<Rightarrow>
                 (None, log WARNING (''Cannot set operation_mode to '' @ apostrophe @ ''%s'' @ apostrophe)
                          [pyval_of_name name] s)
             | Some operation_mode \<Rightarrow>
                 (let s1 =
                    (if operation_mode = OperationMode_Disarm \<and>
                        state s = PyBaseUnitState BaseUnitState_Disarm \<and>
                        ha_state s = Some STATE_TRIGGERED then
                       publish (baseunit_topic (baseunit cfg) @ ''/'' @ TOPIC_STATE)
                         (PyStr STATE_DISARMED) True
                         ((log DEBUG ''Resetting triggered ha_state in disarmed mode'' [] s)
                            \<lparr>ha_state := Some STATE_DISARMED\<rparr>)
                     else s)
                  in (None, create_task (async_set_operation_mode operation_mode) s1))))
     else (Some NotImplementedError, s))"

text \<open>\<open>Translator._on_message_clear_status\<close> and \<open>Translator._on_message_set_datetime\<close>.\<close>

definition on_message_clear_status :: "translator \<Rightarrow> outcome" where
  "on_message_clear_status s = (None, create_task async_clear_status s)"

definition on_message_set_datetime :: "library \<Rightarrow> string \<Rightarrow> translator \<Rightarrow> outcome" where
  "on_message_set_datetime lib payload s =
    (case decode_payload payload of
       Inl e \<Rightarrow> (Some e, s)
     | Inr None \<Rightarrow> (None, create_task (async_set_datetime None) s)
     | Inr (Some v) \<Rightarrow>
         (case parse_datetime lib v of
            Inl e \<Rightarrow> (Some e, s)
          | Inr t \<Rightarrow> (None, create_task (async_set_datetime (Some t)) s)))"

text \<open>\<open>Translator._on_message\<close>, the handler of the birth topic.\<close>

definition on_message :: "TranslatorConfig \<Rightarrow> BaseUnit \<Rightarrow> string \<Rightarrow> translator \<Rightarrow> outcome" where
  "on_message cfg bu payload s =
    (case decode_payload payload of
       Inl e \<Rightarrow> (Some e, s)
     | Inr p \<Rightarrow>
         if \<not> truthy_str p then (None, s)
         else if p = birth_payload cfg then publish_ha_config cfg bu s
         else (None, s))"

text \<open>
  The body of the router loop in \<open>async_loop\<close> for one queued message: the lookup by exact
  topic in \<open>_subscribetopics_lookup\<close> (a later entry of the list replaces an earlier one
  with the same topic), the call of the handler, and the \<open>except\<close> that logs whatever was
  raised.
\<close>

definition call_handler ::
  "TranslatorConfig \<Rightarrow> library \<Rightarrow> BaseUnit \<Rightarrow> SubscribeTopic \<Rightarrow> string \<Rightarrow> translator \<Rightarrow> outcome" where
  "call_handler cfg lib bu st payload s =
    (case st_on_message st of
       on_message_clear_status_handler \<Rightarrow> on_message_clear_status s
     | on_message_set_datetime_handler \<Rightarrow> on_message_set_datetime lib payload s
     | on_message_baseunit_handler \<Rightarrow> on_message_baseunit cfg lib st payload s
     | on_message_handler \<Rightarrow> on_message cfg bu payload s)"

definition deliver ::
  "TranslatorConfig \<Rightarrow> library \<Rightarrow> BaseUnit \<Rightarrow> string \<Rightarrow> string \<Rightarrow> translator \<Rightarrow> translator" where
  "deliver cfg lib bu topic payload s =
    (case map_of (rev (map (\<lambda>st. (st_topic st, st)) (subscribetopics cfg))) topic of
       None \<Rightarrow>
         log ERROR ''Exception processing message from subscribed topic: %s'' [PyStr topic] s
     | Some st \<Rightarrow>
         (case call_handler cfg lib bu st payload s of
            (None, s') \<Rightarrow> s'
          | (Some e, s') \<Rightarrow>
              log ERROR ''Exception processing message from subscribed topic: %s''
                [PyStr topic] s'))"

section \<open>The translator as a transition system\<close>

text \<open>
  \<open>Translator.signal_shutdown\<close> sets the flag (what it does to the router loop's pending
  wait and queue is outside this state), and the router loop, once it has left its
  \<open>while\<close>, turns the \<open>is_connected\<close> flag off.
\<close>

definition signal_shutdown :: "translator \<Rightarrow> translator" where
  "signal_shutdown s = s\<lparr>shutdown := True\<rparr>"

definition async_loop_exit :: "TranslatorConfig \<Rightarrow> translator \<Rightarrow> outcome" where
  "async_loop_exit cfg s = publish_baseunit_property cfg PROP_IS_CONNECTED (PyBool False) s"

text \<open>
  The calls that reach the translator once it is constructed: the adapter's four
  notifications and its two device callbacks, the event loop running a timer, the broker
  client's connection callbacks, the router loop handing over a queued message and
  leaving, the shutdown signal, and \<open>async_stop\<close>.
\<close>

datatype notification =
    DeviceAdded Device
  | DeviceDeleted Device
  | BaseUnitEvent ContactID
  | BaseUnitPropertiesChanged "(string \<times> pyval) list"
  | DeviceEvent Device DeviceEventCode
  | DevicePropertiesChanged Device "(string \<times> pyval) list"
  | TimerDue nat
  | MqttConnect int
  | MqttDisconnect_rc int
  | MessageQueued string string
  | ShutdownSignal
  | LoopExit
  | StopRequested

text \<open>
  One call, made at time \<open>now\<close> with the adapter as it is then. An exception leaves the
  callee with the state reached when it was raised.
\<close>

fun step ::
  "TranslatorConfig \<Rightarrow> library \<Rightarrow> int \<Rightarrow> BaseUnit \<Rightarrow> notification \<Rightarrow> translator \<Rightarrow> translator" where
  "step cfg lib now bu (DeviceAdded dev) s = snd (baseunit_device_added cfg dev s)"
| "step cfg lib now bu (DeviceDeleted dev) s = baseunit_device_deleted dev s"
| "step cfg lib now bu (BaseUnitEvent c) s = baseunit_event cfg c s"
| "step cfg lib now bu (BaseUnitPropertiesChanged changes) s =
     snd (baseunit_properties_changed cfg bu changes s)"
| "step cfg lib now bu (DeviceEvent dev ec) s = device_on_event cfg now dev ec s"
| "step cfg lib now bu (DevicePropertiesChanged dev changes) s =
     snd (device_on_properties_changed cfg lib dev changes s)"
| "step cfg lib now bu (TimerDue h) s = snd (run_timer cfg now h s)"
| "step cfg lib now bu (MqttConnect rc) s = mqtt_on_connect cfg bu now rc s"
| "step cfg lib now bu (MqttDisconnect_rc rc) s = mqtt_on_disconnect now rc s"
| "step cfg lib now bu (MessageQueued topic payload) s = deliver cfg lib bu topic payload s"
| "step cfg lib now bu ShutdownSignal s = signal_shutdown s"
| "step cfg lib now bu LoopExit s = snd (async_loop_exit cfg s)"
| "step cfg lib now bu StopRequested s = snd (async_stop s)"

fun run ::
  "TranslatorConfig \<Rightarrow> library \<Rightarrow> (int \<times> BaseUnit \<times> notification) list \<Rightarrow> translator \<Rightarrow> translator" where
  "run cfg lib [] s = s"
| "run cfg lib ((now, bu, n) # rest) s = run cfg lib rest (step cfg lib now bu n s)"

text \<open>The timers the loop still holds and will run: those not cancelled.\<close>

definition live_timers :: "translator \<Rightarrow> timer list" where
  "live_timers s = filter (\<lambda>t. \<not> cancelled t) (timers s)"

text \<open>
  The discipline of the auto-reset table: its keys are distinct, the loop's timers have
  distinct handles below the next one to be issued, every timer was armed for a
  configured device with a topic, and the entries of the table are exactly the live
  timers, each under its device id.
\<close>

definition auto_reset_inv :: "TranslatorConfig \<Rightarrow> translator \<Rightarrow> bool" where
  "auto_reset_inv cfg s \<longleftrightarrow>
     distinct (map fst (auto_reset_handles s))
   \<and> distinct (map handle (timers s))
   \<and> list_all (\<lambda>t. handle t < next_handle s) (timers s)
   \<and> list_all (\<lambda>t. case map_of (devices cfg) (arg t) of
                       None \<Rightarrow> False
                     | Some dc \<Rightarrow> device_topic dc \<noteq> []) (timers s)
   \<and> set (auto_reset_handles s) = set (map (\<lambda>t. (arg t, handle t)) (live_timers s))"

text \<open>
  What a call that has nothing to do with the auto reset leaves alone: the loop's timers,
  the table of handles and the next handle.
\<close>

definition timers_untouched :: "translator \<Rightarrow> translator \<Rightarrow> bool" where
  "timers_untouched s s' \<longleftrightarrow>
     timers s' = timers s \<and> auto_reset_handles s' = auto_reset_handles s \<and>
     next_handle s' = next_handle s"

section \<open>Concrete inputs\<close>

text \<open>
  A configuration after the default file of \<open>config.py\<close>, with one device and a device-info
  block for the base unit, and stand-ins for the library's parser and flag tables, on
  which the definitions above can be run.
\<close>

definition example_parse_name :: "string option \<Rightarrow> OperationMode option" where
  "example_parse_name n =
    (if n = Some ''Disarm'' then Some OperationMode_Disarm
     else if n = Some ''Home'' then Some OperationMode_Home
     else if n = Some ''Away'' then Some OperationMode_Away
     else if n = Some ''Monitor'' then Some (OperationMode_Other ''Monitor'')
     else None)"

definition example_library :: library where
  "example_library =
     \<lparr>parse_name = example_parse_name, parse_datetime = (\<lambda>v. Inl ValueError),
      DCFlags = [(''Repeater'', 128), (''BaseUnit'', 64), (''TwoWay'', 32)],
      ESFlags = [(''Bypass'', 16384), (''Delay'', 8192)],
      SwitchFlags = [(''SW01'', 32768)],
      SSFlags = [(''ControlAlarm'', 128)]\<rparr>"

definition example_config :: TranslatorConfig where
  "example_config =
     \<lparr>birth_payload = Some ''online'', birth_topic = Some ''homeassistant/status'',
      discovery_prefix = Some ''homeassistant'',
      baseunit = \<lparr>baseunit_topic = ''home/alarm'',
                   baseunit_device_info = Some [(''manufacturer'', PyStr ''LifeSOS'')]\<rparr>,
      devices = [(1256634, \<lparr>device_topic = ''home/lounge/motion'',
                             auto_reset_interval = Some 180, device_info = None\<rparr>)]\<rparr>"

definition example_device :: Device where
  "example_device = \<lparr>device_id = 1256634, device_type = DeviceType_PIRSensor, is_special = False\<rparr>"

definition example_baseunit :: BaseUnit where
  "example_baseunit = \<lparr>is_connected = True, baseunit_devices = [(1256634, example_device)]\<rparr>"

section \<open>The spec's tables\<close>

text \<open>
  The derived hub alarm state as the spec words it: Disarm and Monitor give disarmed, Home
  gives armed_home, Away gives armed_away, AwayExitDelay and AwayEntryDelay give pending,
  and any other raw state gives nothing.
\<close>

fun spec_ha_state_table :: "pyval \<Rightarrow> string option" where
  "spec_ha_state_table (PyBaseUnitState BaseUnitState_Disarm) = Some ''disarmed''"
| "spec_ha_state_table (PyBaseUnitState BaseUnitState_Monitor) = Some ''disarmed''"
| "spec_ha_state_table (PyBaseUnitState BaseUnitState_Home) = Some ''armed_home''"
| "spec_ha_state_table (PyBaseUnitState BaseUnitState_Away) = Some ''armed_away''"
| "spec_ha_state_table (PyBaseUnitState BaseUnitState_AwayExitDelay) = Some ''pending''"
| "spec_ha_state_table (PyBaseUnitState BaseUnitState_AwayEntryDelay) = Some ''pending''"
| "spec_ha_state_table v = None"

text \<open>
  The publishes of a flag-set property as the spec words them: one retained boolean
  sub-topic \<open>D/<property>/<flag name>\<close> per defined flag, whose value is whether the raw
  value and the flag's bit have a bit in common. The four flag-set properties and their
  enumerations.
\<close>

definition spec_flag_publishes ::
  "string \<Rightarrow> string \<Rightarrow> int \<Rightarrow> (string \<times> int) list \<Rightarrow> effect list" where
  "spec_flag_publishes d name v flags =
     map (\<lambda>(flag_name, b).
            Publish (d @ ''/'' @ name @ ''/'' @ flag_name) (PyBool (v AND b \<noteq> 0)) QOS_1 True)
       flags"

definition spec_flag_enumeration :: "library \<Rightarrow> string \<Rightarrow> (string \<times> int) list option" where
  "spec_flag_enumeration lib name =
    (if name = ''characteristics'' then Some (DCFlags lib)
     else if name = ''enable_status'' then Some (ESFlags lib)
     else if name = ''switches'' then Some (SwitchFlags lib)
     else if name = ''special_status'' then Some (SSFlags lib)
     else None)"

section \<open>Properties\<close>

subsection \<open>Traces\<close>

lemmas prop_names =
  PROP_STATE_def PROP_IS_CONNECTED_def PROP_ROM_VERSION_def PROP_EXIT_DELAY_def
  PROP_ENTRY_DELAY_def PROP_OPERATION_MODE_def PROP_IS_CLOSED_def PROP_CURRENT_READING_def
  PROP_CATEGORY_def PROP_CHARACTERISTICS_def PROP_ENABLE_STATUS_def PROP_SWITCHES_def
  PROP_SPECIAL_STATUS_def PROP_DEVICE_ID_def PROP_ZONE_def PROP_TYPE_def PROP_RSSI_DB_def
  PROP_RSSI_BARS_def PROP_HIGH_LIMIT_def PROP_LOW_LIMIT_def
  PROP_CONTROL_LIMIT_FIELDS_EXIST_def PROP_CONTROL_HIGH_LIMIT_def PROP_CONTROL_LOW_LIMIT_def

lemma published_at_append:
  "published_at t (xs @ ys) = published_at t xs @ published_at t ys"
  by (induction t xs rule: published_at.induct) simp_all

lemma publishes_append: "publishes (xs @ ys) = publishes xs @ publishes ys"
  by (induction xs rule: publishes.induct) simp_all

lemma commands_append: "commands (xs @ ys) = commands xs @ commands ys"
  by (induction xs rule: commands.induct) simp_all

subsection \<open>The derived hub alarm state\<close>

lemma publish_state_step:
  "publish_baseunit_property cfg PROP_STATE v s =
     (case spec_ha_state_table v of
        Some h \<Rightarrow>
          (None,
           s\<lparr>state := v, ha_state := Some h,
             trace := trace s @
               [Publish (baseunit_topic (baseunit cfg)) v QOS_1 True,
                Publish (baseunit_topic (baseunit cfg) @ ''/ha_state'') (PyStr h) QOS_1 True]\<rparr>)
      | None \<Rightarrow>
          (if hashable v then None else Some TypeError,
           s\<lparr>state := v,
             trace := trace s @ [Publish (baseunit_topic (baseunit cfg)) v QOS_1 True]\<rparr>))"
  by (cases v rule: spec_ha_state_table.cases)
     (simp_all add: publish_baseunit_property_def publish_def Let_def STATE_DISARMED_def
        STATE_ARMED_HOME_def STATE_ARMED_AWAY_def STATE_PENDING_def TOPIC_STATE_def)

lemma ha_published_state_step:
  "published_at (baseunit_topic (baseunit cfg) @ ''/ha_state'')
       (trace (snd (publish_baseunit_property cfg PROP_STATE v s))) =
     published_at (baseunit_topic (baseunit cfg) @ ''/ha_state'') (trace s) @
       (case spec_ha_state_table v of Some h \<Rightarrow> [(PyStr h, True)] | None \<Rightarrow> [])"
  by (simp add: publish_state_step published_at_append split: option.split)

lemma ha_state_state_step:
  "ha_state (snd (publish_baseunit_property cfg PROP_STATE v s)) =
     (case spec_ha_state_table v of Some h \<Rightarrow> Some h | None \<Rightarrow> ha_state s)"
  by (simp add: publish_state_step split: option.split)

lemma state_notification:
  "baseunit_properties_changed cfg bu [(PROP_STATE, v)] s =
     publish_baseunit_property cfg PROP_STATE v s"
  by (cases "publish_baseunit_property cfg PROP_STATE v s")
     (simp add: baseunit_properties_changed_def has_connected_def prop_names and_then_def
        split: option.split)

text \<open>
  Claim C1. A change of the base unit's \<open>state\<close> property to \<open>v\<close> records \<open>v\<close>, publishes it
  retained on the base topic, and then follows the spec's table: when the table has a hub
  state for \<open>v\<close>, that state becomes the derived state and is published retained on
  \<open>B/ha_state\<close>; when it has none, the derived state stays as it was and nothing is
  published on \<open>B/ha_state\<close> (a value that cannot be looked up in a set raises there). The
  notifications Disarm, Home, AwayExitDelay, one after the other, add exactly the retained
  publishes disarmed, armed_home, pending to \<open>B/ha_state\<close>, in that order.
\<close>

theorem baseunit_state_derives_ha_state:
  "publish_baseunit_property cfg PROP_STATE v s =
     (case spec_ha_state_table v of
        Some h \<Rightarrow>
          (None,
           s\<lparr>state := v, ha_state := Some h,
             trace := trace s @
               [Publish (baseunit_topic (baseunit cfg)) v QOS_1 True,
                Publish (baseunit_topic (baseunit cfg) @ ''/ha_state'') (PyStr h) QOS_1 True]\<rparr>)
      | None \<Rightarrow>
          (if hashable v then None else Some TypeError,
           s\<lparr>state := v,
             trace := trace s @ [Publish (baseunit_topic (baseunit cfg)) v QOS_1 True]\<rparr>))
   \<and> published_at (baseunit_topic (baseunit cfg) @ ''/ha_state'')
       (trace (snd (publish_baseunit_property cfg PROP_STATE v s))) =
     published_at (baseunit_topic (baseunit cfg) @ ''/ha_state'') (trace s) @
       (case spec_ha_state_table v of Some h \<Rightarrow> [(PyStr h, True)] | None \<Rightarrow> [])
   \<and> ha_state (snd (publish_baseunit_property cfg PROP_STATE v s)) =
       (case spec_ha_state_table v of Some h \<Rightarrow> Some h | None \<Rightarrow> ha_state s)
   \<and> baseunit_properties_changed cfg bu [(PROP_STATE, v)] s =
       publish_baseunit_property cfg PROP_STATE v s
   \<and> published_at (baseunit_topic (baseunit cfg) @ ''/ha_state'')
       (trace (snd (baseunit_properties_changed cfg bu
          [(PROP_STATE, PyBaseUnitState BaseUnitState_AwayExitDelay)]
          (snd (baseunit_properties_changed cfg bu
             [(PROP_STATE, PyBaseUnitState BaseUnitState_Home)]
             (snd (baseunit_properties_changed cfg bu
                [(PROP_STATE, PyBaseUnitState BaseUnitState_Disarm)] s))))))) =
     published_at (baseunit_topic (baseunit cfg) @ ''/ha_state'') (trace s) @
       [(PyStr ''disarmed'', True), (PyStr ''armed_home'', True), (PyStr ''pending'', True)]"
  by (simp add: state_notification ha_published_state_step ha_state_state_step
        publish_state_step [symmetric])

subsection \<open>Alarm events\<close>

text \<open>
  Claim C2. A base-unit event whose qualifier is Event and whose category is Alarm sets the
  derived hub state to triggered and publishes it retained on \<open>B/ha_state\<close>, as the last
  effect of the handler, whatever the translator's state was; the raw state is not
  touched and no property change is involved.
\<close>

theorem alarm_event_forces_triggered:
  assumes "event_qualifier c = EventQualifier_Event"
    and "event_category c = EventCategory_Alarm"
  shows "ha_state (baseunit_event cfg c s) = Some ''triggered''
    \<and> published_at (baseunit_topic (baseunit cfg) @ ''/ha_state'') (trace (baseunit_event cfg c s)) =
        published_at (baseunit_topic (baseunit cfg) @ ''/ha_state'') (trace s) @
          [(PyStr ''triggered'', True)]
    \<and> (\<exists>pre. trace (baseunit_event cfg c s) =
          trace s @ pre @
            [Publish (baseunit_topic (baseunit cfg) @ ''/ha_state'') (PyStr ''triggered'') QOS_1 True])
    \<and> state (baseunit_event cfg c s) = state s"
  using assms
  by (auto simp add: baseunit_event_def publish_def Let_def STATE_TRIGGERED_def TOPIC_STATE_def
        published_at_append split: option.split)

theorem alarm_event_forces_triggered_witness:
  "ha_state (baseunit_event example_config
       \<lparr>event_code = Some 130, event_qualifier = EventQualifier_Event,
        event_category = EventCategory_Alarm, as_dict = []\<rparr>
       (init\<lparr>state := PyBaseUnitState BaseUnitState_Disarm, ha_state := Some ''disarmed''\<rparr>)) =
     Some ''triggered''"
  using alarm_event_forces_triggered [of
      "\<lparr>event_code = Some 130, event_qualifier = EventQualifier_Event,
        event_category = EventCategory_Alarm, as_dict = []\<rparr>"
      example_config
      "init\<lparr>state := PyBaseUnitState BaseUnitState_Disarm, ha_state := Some ''disarmed''\<rparr>"]
  by simp

subsection \<open>Topics of the base unit's properties\<close>

text \<open>
  Claim C7 as stated fails: \<open>state\<close> is on the allow-list, yet a change of \<open>state\<close> to Home
  under the base topic \<open>home/alarm\<close> publishes on \<open>home/alarm\<close> and \<open>home/alarm/ha_state\<close>
  and nothing on \<open>home/alarm/state\<close>.
\<close>

theorem state_not_published_under_its_name:
  "PROP_STATE \<in> {PROP_STATE, PROP_IS_CONNECTED, PROP_ROM_VERSION, PROP_EXIT_DELAY,
                  PROP_ENTRY_DELAY, PROP_OPERATION_MODE}
   \<and> baseunit_topic (baseunit example_config) @ ''/'' @ PROP_STATE = ''home/alarm/state''
   \<and> publish_baseunit_property example_config PROP_STATE
          (PyBaseUnitState BaseUnitState_Home) init =
       (None, init\<lparr>state := PyBaseUnitState BaseUnitState_Home, ha_state := Some ''armed_home'',
          trace := [Publish ''home/alarm'' (PyBaseUnitState BaseUnitState_Home) 1 True,
                    Publish ''home/alarm/ha_state'' (PyStr ''armed_home'') 1 True]\<rparr>)
   \<and> trace (snd (publish_baseunit_property example_config PROP_STATE
              (PyBaseUnitState BaseUnitState_Home) init)) =
       [Publish ''home/alarm'' (PyBaseUnitState BaseUnitState_Home) 1 True,
        Publish ''home/alarm/ha_state'' (PyStr ''armed_home'') 1 True]
   \<and> published_at ''home/alarm/state''
        (trace (snd (publish_baseunit_property example_config PROP_STATE
                  (PyBaseUnitState BaseUnitState_Home) init))) = []"
  unfolding publish_state_step
  by (simp add: example_config_def init_def QOS_1_def PROP_STATE_def)

text \<open>
  Claim C7, amended. A change of \<open>is_connected\<close>, \<open>rom_version\<close>, \<open>exit_delay\<close>,
  \<open>entry_delay\<close> or \<open>operation_mode\<close> publishes the new value retained on \<open>B/<name>\<close> and
  does nothing else; a change of \<open>state\<close> publishes the new value retained on the base
  topic \<open>B\<close> itself, followed by the derived hub state on \<open>B/ha_state\<close> when the table has
  one; a change of any other property does nothing.
\<close>

theorem baseunit_property_topics:
  "(name \<in> {PROP_IS_CONNECTED, PROP_ROM_VERSION, PROP_EXIT_DELAY, PROP_ENTRY_DELAY,
             PROP_OPERATION_MODE} \<longrightarrow>
      publish_baseunit_property cfg name v s =
        (None,
         s\<lparr>trace := trace s @
              [Publish (baseunit_topic (baseunit cfg) @ ''/'' @ name) v QOS_1 True]\<rparr>))
   \<and> publishes (trace (snd (publish_baseunit_property cfg PROP_STATE v s))) =
       publishes (trace s) @
         Publish (baseunit_topic (baseunit cfg)) v QOS_1 True #
         (case spec_ha_state_table v of
            Some h \<Rightarrow> [Publish (baseunit_topic (baseunit cfg) @ ''/ha_state'') (PyStr h) QOS_1 True]
          | None \<Rightarrow> [])
   \<and> (name \<notin> {PROP_STATE, PROP_IS_CONNECTED, PROP_ROM_VERSION, PROP_EXIT_DELAY,
               PROP_ENTRY_DELAY, PROP_OPERATION_MODE} \<longrightarrow>
      publish_baseunit_property cfg name v s = (None, s))"
proof (intro conjI impI)
  assume allowed: "name \<in> {PROP_IS_CONNECTED, PROP_ROM_VERSION, PROP_EXIT_DELAY,
    PROP_ENTRY_DELAY, PROP_OPERATION_MODE}"
  then have "name \<noteq> PROP_STATE"
    by (auto simp: prop_names)
  with allowed show "publish_baseunit_property cfg name v s =
      (None,
       s\<lparr>trace := trace s @
            [Publish (baseunit_topic (baseunit cfg) @ ''/'' @ name) v QOS_1 True]\<rparr>)"
    by (simp add: publish_baseunit_property_def publish_def)
next
  show "publishes (trace (snd (publish_baseunit_property cfg PROP_STATE v s))) =
       publishes (trace s) @
         Publish (baseunit_topic (baseunit cfg)) v QOS_1 True #
         (case spec_ha_state_table v of
            Some h \<Rightarrow> [Publish (baseunit_topic (baseunit cfg) @ ''/ha_state'') (PyStr h) QOS_1 True]
          | None \<Rightarrow> [])"
    by (simp add: publish_state_step publishes_append split: option.split)
next
  assume "name \<notin> {PROP_STATE, PROP_IS_CONNECTED, PROP_ROM_VERSION, PROP_EXIT_DELAY,
    PROP_ENTRY_DELAY, PROP_OPERATION_MODE}"
  then show "publish_baseunit_property cfg name v s = (None, s)"
    by (simp add: publish_baseunit_property_def)
qed

theorem baseunit_property_topics_witness:
  "publish_baseunit_property example_config ''exit_delay'' (PyInt 15) init =
     (None, init\<lparr>trace := [Publish ''home/alarm/exit_delay'' (PyInt 15) 1 True]\<rparr>)
   \<and> publish_baseunit_property example_config ''zone'' (PyStr ''01-02'') init = (None, init)"
  using baseunit_property_topics [of "''exit_delay''" example_config "PyInt 15" init]
    baseunit_property_topics [of "''zone''" example_config "PyStr ''01-02''" init]
  by (simp add: prop_names example_config_def init_def QOS_1_def)

subsection \<open>Operation-mode set messages\<close>

lemma op_mode_topic_args: "st_args (subscribetopics cfg ! 2) = Some PROP_OPERATION_MODE"
  by (simp add: subscribetopics_def)

text \<open>
  Claim C3. On an operation-mode set message whose payload decodes and parses to a mode
  \<open>m\<close>: when \<open>m\<close> is Disarm, the last raw state is Disarm and the derived hub state is
  triggered, the handler sets the derived state to disarmed, publishes it retained on
  \<open>B/ha_state\<close> and after that schedules the command; in every other case it schedules
  the command and does nothing else.
\<close>

theorem disarm_while_triggered_resets_ha_state:
  assumes "st_args st = Some PROP_OPERATION_MODE"
    and "decode_payload payload = Inr name"
    and "parse_name lib name = Some m"
  shows "on_message_baseunit cfg lib st payload s =
    (None,
     if m = OperationMode_Disarm \<and> state s = PyBaseUnitState BaseUnitState_Disarm \<and>
        ha_state s = Some ''triggered''
     then s\<lparr>ha_state := Some ''disarmed'',
            trace := trace s @
              [Log DEBUG ''Resetting triggered ha_state in disarmed mode'' [],
               Publish (baseunit_topic (baseunit cfg) @ ''/ha_state'') (PyStr ''disarmed'') QOS_1 True,
               CreateTask (async_set_operation_mode m)]\<rparr>
     else s\<lparr>trace := trace s @ [CreateTask (async_set_operation_mode m)]\<rparr>)"
  using assms
  by (simp add: on_message_baseunit_def publish_def log_def create_task_def Let_def
        STATE_TRIGGERED_def STATE_DISARMED_def TOPIC_STATE_def)

theorem disarm_while_triggered_resets_ha_state_witness:
  "on_message_baseunit example_config example_library (subscribetopics example_config ! 2)
      ''Disarm''
      (init\<lparr>state := PyBaseUnitState BaseUnitState_Disarm, ha_state := Some ''triggered''\<rparr>) =
    (None, init\<lparr>state := PyBaseUnitState BaseUnitState_Disarm, ha_state := Some ''disarmed'',
       trace := [Log DEBUG ''Resetting triggered ha_state in disarmed mode'' [],
                 Publish ''home/alarm/ha_state'' (PyStr ''disarmed'') 1 True,
                 CreateTask (async_set_operation_mode OperationMode_Disarm)]\<rparr>)
   \<and> on_message_baseunit example_config example_library (subscribetopics example_config ! 2)
      ''Home''
      (init\<lparr>state := PyBaseUnitState BaseUnitState_Disarm, ha_state := Some ''triggered''\<rparr>) =
    (None, init\<lparr>state := PyBaseUnitState BaseUnitState_Disarm, ha_state := Some ''triggered'',
       trace := [CreateTask (async_set_operation_mode OperationMode_Home)]\<rparr>)"
  using disarm_while_triggered_resets_ha_state [of "subscribetopics example_config ! 2"
      "''Disarm''" "Some ''Disarm''" example_library OperationMode_Disarm example_config
      "init\<lparr>state := PyBaseUnitState BaseUnitState_Disarm, ha_state := Some ''triggered''\<rparr>"]
    disarm_while_triggered_resets_ha_state [of "subscribetopics example_config ! 2"
      "''Home''" "Some ''Home''" example_library OperationMode_Home example_config
      "init\<lparr>state := PyBaseUnitState BaseUnitState_Disarm, ha_state := Some ''triggered''\<rparr>"]
  by (simp add: op_mode_topic_args decode_payload_def byte_def example_library_def
        example_parse_name_def example_config_def init_def QOS_1_def)

text \<open>
  Claim C9 as stated fails: the one-byte payload \<open>0xFF\<close> names no operation mode, and the
  handler neither logs a warning nor returns: \<open>decode()\<close> raises \<open>UnicodeDecodeError\<close>
  out of it.
\<close>

theorem undecodable_payload_raises:
  "decode_payload [char_of (255::nat)] = Inl UnicodeDecodeError
   \<and> on_message_baseunit example_config example_library (subscribetopics example_config ! 2)
       [char_of (255::nat)] init = (Some UnicodeDecodeError, init)"
  by (simp add: on_message_baseunit_def op_mode_topic_args decode_payload_def byte_def)

text \<open>
  Claim C9, amended. On an operation-mode set message: an empty payload reaches the parser
  as \<open>None\<close>; a payload that is empty or decodes as UTF-8, and that the parser maps to no
  mode, makes the handler log one warning and return with nothing else done; a payload
  that is not UTF-8 makes the handler raise \<open>UnicodeDecodeError\<close> with the state
  untouched; and in all these cases no command is scheduled and nothing is published.
\<close>

theorem unparseable_operation_mode_ignored:
  assumes "st_args st = Some PROP_OPERATION_MODE"
  shows "(payload = [] \<longrightarrow> decode_payload payload = Inr None)
   \<and> (decode_payload payload = Inr name \<and> parse_name lib name = None \<longrightarrow>
        on_message_baseunit cfg lib st payload s =
          (None, s\<lparr>trace := trace s @
             [Log WARNING (''Cannot set operation_mode to '' @ apostrophe @ ''%s'' @ apostrophe)
                [pyval_of_name name]]\<rparr>))
   \<and> (decode_payload payload = Inl e \<longrightarrow>
        e = UnicodeDecodeError \<and> on_message_baseunit cfg lib st payload s = (Some e, s))
   \<and> ((\<forall>n. decode_payload payload = Inr n \<longrightarrow> parse_name lib n = None) \<longrightarrow>
        commands (trace (snd (on_message_baseunit cfg lib st payload s))) = commands (trace s)
        \<and> publishes (trace (snd (on_message_baseunit cfg lib st payload s))) =
            publishes (trace s))"
  using assms
  by (auto simp add: on_message_baseunit_def log_def decode_payload_def commands_append
        publishes_append split: if_splits sum.splits option.splits)

theorem unparseable_operation_mode_ignored_witness:
  "on_message_baseunit example_config example_library (subscribetopics example_config ! 2)
       [] init =
     (None, init\<lparr>trace :=
        [Log WARNING (''Cannot set operation_mode to '' @ apostrophe @ ''%s'' @ apostrophe)
           [PyNone]]\<rparr>)
   \<and> on_message_baseunit example_config example_library (subscribetopics example_config ! 2)
       ''armed'' init =
     (None, init\<lparr>trace :=
        [Log WARNING (''Cannot set operation_mode to '' @ apostrophe @ ''%s'' @ apostrophe)
           [PyStr ''armed'']]\<rparr>)
   \<and> commands (trace (snd (on_message_baseunit example_config example_library
        (subscribetopics example_config ! 2) [char_of (254::nat)] init))) = []"
  using unparseable_operation_mode_ignored [of "subscribetopics example_config ! 2" "[]" None
      example_library example_config init]
    unparseable_operation_mode_ignored [of "subscribetopics example_config ! 2" "''armed''"
      "Some ''armed''" example_library example_config init]
    unparseable_operation_mode_ignored [where st = "subscribetopics example_config ! 2"
      and payload = "[char_of (254::nat)]" and name = None and lib = example_library
      and e = UnicodeDecodeError and cfg = example_config and s = init]
  by (simp add: op_mode_topic_args decode_payload_def byte_def example_library_def
        example_parse_name_def init_def)

subsection \<open>The birth topic\<close>

lemma on_message_cases:
  "on_message cfg bu payload s =
     (if payload = [] then (None, s)
      else if \<not> valid_utf8 payload then (Some UnicodeDecodeError, s)
      else if birth_payload cfg = Some payload then publish_ha_config cfg bu s
      else (None, s))"
  by (auto simp add: on_message_def decode_payload_def)

text \<open>
  Claim C10. An empty payload on the birth topic makes the handler return with the state
  as it was, whatever the configured birth payload is (empty or absent included); the
  handler changes the trace only for a payload that is not empty and equals the
  configured birth payload; and for such a payload, when it decodes, the handler is the
  discovery republish.
\<close>

theorem empty_birth_payload_ignored:
  "(payload = [] \<longrightarrow> on_message cfg bu payload s = (None, s))
   \<and> (trace (snd (on_message cfg bu payload s)) \<noteq> trace s \<longrightarrow>
        payload \<noteq> [] \<and> birth_payload cfg = Some payload)
   \<and> (payload \<noteq> [] \<and> valid_utf8 payload \<and> birth_payload cfg = Some payload \<longrightarrow>
        on_message cfg bu payload s = publish_ha_config cfg bu s)"
  by (auto simp add: on_message_cases split: if_splits)

theorem empty_birth_payload_ignored_witness:
  "on_message (example_config\<lparr>birth_payload := Some []\<rparr>)
       \<lparr>is_connected = True, baseunit_devices = []\<rparr> [] init = (None, init)
   \<and> on_message (example_config\<lparr>birth_payload := None\<rparr>)
       \<lparr>is_connected = True, baseunit_devices = []\<rparr> [] init = (None, init)
   \<and> on_message example_config \<lparr>is_connected = True, baseunit_devices = []\<rparr> ''online'' init =
       publish_ha_config example_config \<lparr>is_connected = True, baseunit_devices = []\<rparr> init
   \<and> trace (snd (on_message example_config \<lparr>is_connected = True, baseunit_devices = []\<rparr>
        ''online'' init)) \<noteq> trace init
   \<and> birth_payload example_config = Some ''online''"
  using empty_birth_payload_ignored [of "[]" "example_config\<lparr>birth_payload := Some []\<rparr>"
      "\<lparr>is_connected = True, baseunit_devices = []\<rparr>" init]
    empty_birth_payload_ignored [of "[]" "example_config\<lparr>birth_payload := None\<rparr>"
      "\<lparr>is_connected = True, baseunit_devices = []\<rparr>" init]
    empty_birth_payload_ignored [of "''online''" example_config
      "\<lparr>is_connected = True, baseunit_devices = []\<rparr>" init]
  by (simp add: example_config_def byte_def init_def publish_ha_config_def
        publish_baseunit_config_def and_then_def publish_def)

subsection \<open>Broker connection\<close>

lemma connect_trace:
  "trace (mqtt_on_connect cfg bu now CONNACK_ACCEPTED s) =
      trace s @
      [if \<not> mqtt_was_connected s then Log DEBUG ''MQTT client connected to broker'' []
       else (case mqtt_last_disconnection s of
               Some d \<Rightarrow>
                 Log WARNING ''MQTT client reconnected to broker. Outage duration was %s''
                   [PyStrOf (PyTimedelta (now - d))]
             | None \<Rightarrow> Log WARNING ''MQTT client reconnected to broker'' []),
       Publish (baseunit_topic (baseunit cfg) @ ''/is_connected'') (PyBool (is_connected bu))
         QOS_1 True]
      @ map (\<lambda>st. Subscribe (st_topic st) (st_qos st)) (subscribetopics cfg)"
  by (simp add: mqtt_on_connect_def Let_def log_def publish_def subscribe_all_def
        PROP_IS_CONNECTED_def split: option.split)

lemma connect_fields:
  "mqtt_last_connection (mqtt_on_connect cfg bu now CONNACK_ACCEPTED s) = Some now
   \<and> mqtt_was_connected (mqtt_on_connect cfg bu now CONNACK_ACCEPTED s)"
  by (simp add: mqtt_on_connect_def Let_def log_def publish_def subscribe_all_def
        split: option.split)

lemma disconnect_recorded:
  "disconnect_code \<noteq> MQTT_ERR_SUCCESS \<Longrightarrow>
     mqtt_on_disconnect disconnect_time disconnect_code s =
       s\<lparr>mqtt_last_disconnection := Some disconnect_time,
         trace := trace s @
           [Log WARNING
              ''MQTT client lost connection to broker (RC: %i). Will attempt to reconnect periodically''
              [PyInt disconnect_code]]\<rparr>"
  by (simp add: mqtt_on_disconnect_def log_def)

text \<open>
  Claim C8. An accepted connect logs one line, publishes the adapter's current
  \<open>is_connected\<close> retained on \<open>B/is_connected\<close> and subscribes every entry of the registry,
  in this order, and records the time. The line is the plain one on the first connection;
  on a later one with a recorded disconnect at \<open>d\<close> it carries the outage \<open>now - d\<close>. A
  disconnect recorded at \<open>disconnect_time\<close> and followed by an accepted reconnect at \<open>now\<close>
  logs \<open>now - disconnect_time\<close>.
\<close>

theorem reconnect_outage_and_resubscribe:
  assumes "result_code = CONNACK_ACCEPTED"
  shows "trace (mqtt_on_connect cfg bu now result_code s) =
      trace s @
      [if \<not> mqtt_was_connected s then Log DEBUG ''MQTT client connected to broker'' []
       else (case mqtt_last_disconnection s of
               Some d \<Rightarrow>
                 Log WARNING ''MQTT client reconnected to broker. Outage duration was %s''
                   [PyStrOf (PyTimedelta (now - d))]
             | None \<Rightarrow> Log WARNING ''MQTT client reconnected to broker'' []),
       Publish (baseunit_topic (baseunit cfg) @ ''/is_connected'') (PyBool (is_connected bu))
         QOS_1 True]
      @ map (\<lambda>st. Subscribe (st_topic st) (st_qos st)) (subscribetopics cfg)
    \<and> mqtt_last_connection (mqtt_on_connect cfg bu now result_code s) = Some now
    \<and> mqtt_was_connected (mqtt_on_connect cfg bu now result_code s)
    \<and> (mqtt_was_connected s \<and> disconnect_code \<noteq> MQTT_ERR_SUCCESS \<longrightarrow>
         trace (mqtt_on_connect cfg bu now result_code
                  (mqtt_on_disconnect disconnect_time disconnect_code s)) =
           trace s @
           [Log WARNING
              ''MQTT client lost connection to broker (RC: %i). Will attempt to reconnect periodically''
              [PyInt disconnect_code],
            Log WARNING ''MQTT client reconnected to broker. Outage duration was %s''
              [PyStrOf (PyTimedelta (now - disconnect_time))],
            Publish (baseunit_topic (baseunit cfg) @ ''/is_connected'')
              (PyBool (is_connected bu)) QOS_1 True]
           @ map (\<lambda>st. Subscribe (st_topic st) (st_qos st)) (subscribetopics cfg))"
  unfolding assms
  by (simp add: connect_trace connect_fields disconnect_recorded)

theorem reconnect_outage_and_resubscribe_witness:
  "trace (mqtt_on_connect example_config \<lparr>is_connected = False, baseunit_devices = []\<rparr> 1042 0
            (mqtt_on_disconnect 1000 7 (init\<lparr>mqtt_was_connected := True\<rparr>))) =
     [Log WARNING
        ''MQTT client lost connection to broker (RC: %i). Will attempt to reconnect periodically''
        [PyInt 7],
      Log WARNING ''MQTT client reconnected to broker. Outage duration was %s''
        [PyStrOf (PyTimedelta 42)],
      Publish ''home/alarm/is_connected'' (PyBool False) 1 True,
      Subscribe ''home/alarm/clear_status'' 1,
      Subscribe ''home/alarm/datetime/set'' 1,
      Subscribe ''home/alarm/operation_mode/set'' 1,
      Subscribe ''homeassistant/status'' 1]"
  using reconnect_outage_and_resubscribe [where result_code = 0 and cfg = example_config
      and bu = "\<lparr>is_connected = False, baseunit_devices = []\<rparr>" and now = 1042
      and s = "init\<lparr>mqtt_was_connected := True\<rparr>" and disconnect_code = 7
      and disconnect_time = 1000]
  by (simp add: CONNACK_ACCEPTED_def MQTT_ERR_SUCCESS_def init_def example_config_def
        subscribetopics_def QOS_1_def TOPIC_CLEAR_STATUS_def TOPIC_DATETIME_def TOPIC_SET_def
        PROP_OPERATION_MODE_def)

subsection \<open>Flag-set properties\<close>

lemma publish_flags_trace:
  "publish_flags d name v flags s = s\<lparr>trace := trace s @ spec_flag_publishes d name v flags\<rparr>"
  by (induction flags arbitrary: s) (auto simp add: publish_def spec_flag_publishes_def)

lemma publish_flag_property_int:
  "publish_flag_property d name (PyInt v) flags s =
     (None, s\<lparr>trace := trace s @ spec_flag_publishes d name v flags\<rparr>)"
  by (simp add: publish_flag_property_def publish_flags_trace spec_flag_publishes_def)

lemma flag_property_each:
  "publish_device_property lib d dev ''characteristics'' (PyInt v) s =
     (None, s\<lparr>trace := trace s @ spec_flag_publishes d ''characteristics'' v (DCFlags lib)\<rparr>)"
  "publish_device_property lib d dev ''enable_status'' (PyInt v) s =
     (None, s\<lparr>trace := trace s @ spec_flag_publishes d ''enable_status'' v (ESFlags lib)\<rparr>)"
  "publish_device_property lib d dev ''switches'' (PyInt v) s =
     (None, s\<lparr>trace := trace s @ spec_flag_publishes d ''switches'' v (SwitchFlags lib)\<rparr>)"
  "publish_device_property lib d dev ''special_status'' (PyInt v) s =
     (None, s\<lparr>trace := trace s @ spec_flag_publishes d ''special_status'' v (SSFlags lib)\<rparr>)"
  by (simp_all add: publish_device_property_def prop_names publish_flag_property_int)

lemma flag_property_publishes:
  assumes "spec_flag_enumeration lib name = Some flags"
  shows "publish_device_property lib d dev name (PyInt v) s =
     (None, s\<lparr>trace := trace s @ spec_flag_publishes d name v flags\<rparr>)"
proof -
  consider "name = ''characteristics''" "flags = DCFlags lib"
    | "name = ''enable_status''" "flags = ESFlags lib"
    | "name = ''switches''" "flags = SwitchFlags lib"
    | "name = ''special_status''" "flags = SSFlags lib"
    using assms unfolding spec_flag_enumeration_def by (metis option.distinct(1) option.inject)
  then show ?thesis
    by cases (simp_all only: flag_property_each)
qed

text \<open>
  Claim C5. A change of a flag-set property (characteristics, enable_status, switches,
  special_status) to the raw value \<open>v\<close> publishes, for a configured device with topic \<open>D\<close>,
  exactly the spec's list: for each defined flag of the property's enumeration, in order,
  one retained publish on \<open>D/<property>/<flag name>\<close> of the boolean \<open>(v & b) != 0\<close>; the
  list is as long as the enumeration.
\<close>

theorem flag_property_one_publish_per_flag:
  assumes "spec_flag_enumeration lib name = Some flags"
  shows "publish_device_property lib d dev name (PyInt v) s =
       (None, s\<lparr>trace := trace s @ spec_flag_publishes d name v flags\<rparr>)
   \<and> (map_of (devices cfg) (device_id dev) = Some dc \<and> device_topic dc \<noteq> [] \<longrightarrow>
        device_on_properties_changed cfg lib dev [(name, PyInt v)] s =
          (None, s\<lparr>trace := trace s @ spec_flag_publishes (device_topic dc) name v flags\<rparr>))
   \<and> length (spec_flag_publishes d name v flags) = length flags
   \<and> map (\<lambda>e. case e of Publish t p q r \<Rightarrow> (p, r) | _ \<Rightarrow> (PyNone, False))
        (spec_flag_publishes d name v flags) =
      map (\<lambda>(flag_name, b). (PyBool (v AND b \<noteq> 0), True)) flags"
  using assms
  by (simp add: flag_property_publishes device_on_properties_changed_def and_then_def
        spec_flag_publishes_def split_def comp_def)

theorem flag_property_one_publish_per_flag_witness:
  "device_on_properties_changed example_config example_library
       \<lparr>device_id = 1256634, device_type = DeviceType_PIRSensor, is_special = False\<rparr>
       [(''characteristics'', PyInt 160)] init =
     (None, init\<lparr>trace :=
        [Publish ''home/lounge/motion/characteristics/Repeater'' (PyBool True) 1 True,
         Publish ''home/lounge/motion/characteristics/BaseUnit'' (PyBool False) 1 True,
         Publish ''home/lounge/motion/characteristics/TwoWay'' (PyBool True) 1 True]\<rparr>)"
  using flag_property_one_publish_per_flag [where lib = example_library
      and name = "''characteristics''" and flags = "DCFlags example_library"
      and cfg = example_config
      and dev = "\<lparr>device_id = 1256634, device_type = DeviceType_PIRSensor, is_special = False\<rparr>"
      and dc = "\<lparr>device_topic = ''home/lounge/motion'', auto_reset_interval = Some 180,
        device_info = None\<rparr>"
      and d = "''home/lounge/motion''" and v = 160 and s = init]
  by (simp add: spec_flag_enumeration_def example_config_def example_library_def
        spec_flag_publishes_def init_def QOS_1_def)

subsection \<open>Devices without configuration\<close>

text \<open>
  Claim C6. For a device whose id has no entry in the configured devices, a device event
  and a device property change leave the translator as it was, and the addition of the
  device raises nothing and publishes nothing (it only hooks the callbacks and logs).
\<close>

theorem unconfigured_device_ignored:
  assumes "map_of (devices cfg) (device_id dev) = None"
  shows "device_on_event cfg now dev ec s = s
    \<and> device_on_properties_changed cfg lib dev changes s = (None, s)
    \<and> fst (baseunit_device_added cfg dev s) = None
    \<and> publishes (trace (snd (baseunit_device_added cfg dev s))) = publishes (trace s)"
  using assms
  by (simp add: device_on_event_def device_on_properties_changed_def baseunit_device_added_def
        log_def publishes_append)

theorem unconfigured_device_ignored_witness:
  "device_on_event example_config 0
       \<lparr>device_id = 10066329, device_type = DeviceType_PIRSensor, is_special = False\<rparr>
       DeviceEventCode_Trigger init = init
   \<and> device_on_properties_changed example_config example_library
       \<lparr>device_id = 10066329, device_type = DeviceType_PIRSensor, is_special = False\<rparr>
       [(''rssi_db'', PyInt 70)] init = (None, init)
   \<and> publishes (trace (snd (baseunit_device_added example_config
       \<lparr>device_id = 10066329, device_type = DeviceType_PIRSensor, is_special = False\<rparr>
       init))) = []"
  using unconfigured_device_ignored [of example_config
      "\<lparr>device_id = 10066329, device_type = DeviceType_PIRSensor, is_special = False\<rparr>"
      0 DeviceEventCode_Trigger init example_library "[(''rssi_db'', PyInt 70)]"]
  by (simp add: example_config_def init_def)

subsection \<open>The auto-reset table\<close>

lemma set_delete: "set (AList.delete k al) = {p \<in> set al. fst p \<noteq> k}"
  by (auto simp add: AList.delete_eq)

lemma set_update_distinct:
  "distinct (map fst al) \<Longrightarrow> set (AList.update k v al) = insert (k, v) {p \<in> set al. fst p \<noteq> k}"
  by (induction al) (auto simp add: rev_image_eqI)

lemma live_timers_cancel:
  "live_timers (cancel h s) = filter (\<lambda>t. handle t \<noteq> h) (live_timers s)"
proof -
  have "filter (\<lambda>t. \<not> cancelled t) (map (\<lambda>t. if handle t = h then t\<lparr>cancelled := True\<rparr> else t) ts) =
        filter (\<lambda>t. handle t \<noteq> h) (filter (\<lambda>t. \<not> cancelled t) ts)" for ts
    by (induction ts) auto
  then show ?thesis by (simp add: live_timers_def cancel_def)
qed

lemma handles_cancel: "map handle (timers (cancel h s)) = map handle (timers s)"
  by (simp add: cancel_def comp_def if_distrib [of handle] cong: if_cong)

lemma args_cancel: "map arg (timers (cancel h s)) = map arg (timers s)"
  by (simp add: cancel_def comp_def if_distrib [of arg] cong: if_cong)

lemma inv_key_value:
  assumes "auto_reset_inv cfg s"
    and "(k, h) \<in> set (auto_reset_handles s)"
    and "(k', h') \<in> set (auto_reset_handles s)"
  shows "k = k' \<longleftrightarrow> h = h'"
proof
  assume "k = k'"
  with assms show "h = h'"
    by (auto simp add: auto_reset_inv_def dest: eq_key_imp_eq_value)
next
  assume eq: "h = h'"
  from assms have img: "set (auto_reset_handles s) = (\<lambda>t. (arg t, handle t)) ` set (live_timers s)"
    and dist: "distinct (map handle (timers s))"
    by (simp_all add: auto_reset_inv_def)
  from assms(2) img obtain t where t: "t \<in> set (live_timers s)" "arg t = k" "handle t = h"
    by auto
  from assms(3) img obtain t' where t': "t' \<in> set (live_timers s)" "arg t' = k'" "handle t' = h'"
    by auto
  from dist have "inj_on handle (set (timers s))"
    by (simp add: distinct_map)
  moreover from t t' have "t \<in> set (timers s)" "t' \<in> set (timers s)"
    by (simp_all add: live_timers_def)
  ultimately have "t = t'"
    using eq t t' by (auto dest: inj_onD)
  with t t' show "k = k'" by simp
qed

lemma inv_without_entry:
  assumes inv: "auto_reset_inv cfg s" and mem: "(k, h) \<in> set (auto_reset_handles s)"
  shows "{p \<in> set (auto_reset_handles s). fst p \<noteq> k} =
         (\<lambda>t. (arg t, handle t)) ` {t \<in> set (live_timers s). handle t \<noteq> h}"
proof -
  from inv have img: "set (auto_reset_handles s) = (\<lambda>t. (arg t, handle t)) ` set (live_timers s)"
    by (simp add: auto_reset_inv_def)
  have "fst p \<noteq> k \<longleftrightarrow> snd p \<noteq> h" if "p \<in> set (auto_reset_handles s)" for p
    using inv_key_value [OF inv mem, of "fst p" "snd p"] that by auto
  then have "{p \<in> set (auto_reset_handles s). fst p \<noteq> k} =
      {p \<in> set (auto_reset_handles s). snd p \<noteq> h}"
    by blast
  also have "\<dots> = (\<lambda>t. (arg t, handle t)) ` {t \<in> set (live_timers s). handle t \<noteq> h}"
    unfolding img by auto
  finally show ?thesis .
qed

lemma untouched_refl: "timers_untouched s s"
  by (simp add: timers_untouched_def)

lemma untouched_trans: "timers_untouched s s1 \<Longrightarrow> timers_untouched s1 s2 \<Longrightarrow> timers_untouched s s2"
  by (simp add: timers_untouched_def)

lemma untouched_publish: "timers_untouched s (publish t p r s)"
  by (simp add: timers_untouched_def publish_def)

lemma untouched_log: "timers_untouched s (log l m a s)"
  by (simp add: timers_untouched_def log_def)

lemma untouched_create_task: "timers_untouched s (create_task c s)"
  by (simp add: timers_untouched_def create_task_def)

lemma untouched_and_then:
  assumes "timers_untouched s (snd r)" and "\<And>s1. timers_untouched s1 (snd (f s1))"
  shows "timers_untouched s (snd (and_then r f))"
  using assms by (cases r) (auto simp add: and_then_def intro: untouched_trans split: option.split)

lemma untouched_publish_baseunit_property:
  "timers_untouched s (snd (publish_baseunit_property cfg name v s))"
  by (simp add: timers_untouched_def publish_baseunit_property_def publish_def Let_def)

lemma untouched_publish_baseunit_changes:
  "timers_untouched s (snd (publish_baseunit_changes cfg changes s))"
  by (induction changes arbitrary: s)
     (auto simp add: untouched_refl intro!: untouched_and_then untouched_publish_baseunit_property)

lemma untouched_publish_baseunit_config:
  "timers_untouched s (snd (publish_baseunit_config cfg bc s))"
  by (simp add: timers_untouched_def publish_baseunit_config_def publish_def split: option.split)

lemma untouched_publish_device_config:
  "timers_untouched s (snd (publish_device_config cfg dev dc s))"
  by (simp add: timers_untouched_def publish_device_config_def publish_def log_def Let_def
        split: sum.split)

lemma untouched_publish_device_rssi_config:
  "timers_untouched s (snd (publish_device_rssi_config cfg dev dc s))"
  by (simp add: timers_untouched_def publish_device_rssi_config_def publish_def Let_def
        split: sum.split)

lemma untouched_publish_device_battery_config:
  "timers_untouched s (snd (publish_device_battery_config cfg dev dc s))"
  by (simp add: timers_untouched_def publish_device_battery_config_def publish_def Let_def
        split: sum.split)

lemma untouched_publish_device_configs:
  "timers_untouched s (snd (publish_device_configs cfg dev dc s))"
  unfolding publish_device_configs_def
  by (intro untouched_and_then untouched_publish_device_config
        untouched_publish_device_rssi_config untouched_publish_device_battery_config)

lemma untouched_publish_ha_config_devices:
  "timers_untouched s (snd (publish_ha_config_devices cfg bu ds s))"
proof (induction ds arbitrary: s)
  case Nil
  show ?case by (simp add: untouched_refl)
next
  case (Cons d ds)
  obtain dev_id dc where d: "d = (dev_id, dc)" by (cases d)
  show ?case
    unfolding d
    by (auto simp add: untouched_refl Cons.IH split: option.split
          intro!: untouched_and_then untouched_publish_device_configs)
qed

lemma untouched_publish_ha_config: "timers_untouched s (snd (publish_ha_config cfg bu s))"
  unfolding publish_ha_config_def
  by (auto simp add: untouched_refl
        intro!: untouched_and_then untouched_publish_baseunit_config
          untouched_publish_ha_config_devices)

lemma untouched_baseunit_properties_changed:
  "timers_untouched s (snd (baseunit_properties_changed cfg bu changes s))"
  unfolding baseunit_properties_changed_def
  by (auto simp add: untouched_refl
        intro!: untouched_and_then untouched_publish_baseunit_changes untouched_publish_ha_config)

lemma untouched_baseunit_event: "timers_untouched s (baseunit_event cfg c s)"
  by (simp add: timers_untouched_def baseunit_event_def publish_def Let_def split: option.split)

lemma untouched_baseunit_device_added:
  "timers_untouched s (snd (baseunit_device_added cfg dev s))"
proof -
  have "timers_untouched s (s\<lparr>trace := trace s @ [SetCallbacks (device_id dev) True]\<rparr>)"
    by (simp add: timers_untouched_def)
  then show ?thesis
    unfolding baseunit_device_added_def Let_def
    by (auto split: option.split
          intro: untouched_trans [OF _ untouched_log] untouched_trans [OF _ untouched_publish_device_configs])
qed

lemma untouched_baseunit_device_deleted: "timers_untouched s (baseunit_device_deleted dev s)"
  by (simp add: timers_untouched_def baseunit_device_deleted_def)

lemma untouched_publish_flags: "timers_untouched s (publish_flags d name v flags s)"
proof (induction flags arbitrary: s)
  case Nil
  show ?case by (simp add: untouched_refl)
next
  case (Cons f flags)
  obtain n b where f: "f = (n, b)" by (cases f)
  show ?case
    unfolding f using Cons.IH untouched_publish
    by (simp add: timers_untouched_def)
qed

lemma untouched_publish_category_items:
  "timers_untouched s (publish_category_items d name items s)"
proof (induction items arbitrary: s)
  case Nil
  show ?case by (simp add: untouched_refl)
next
  case (Cons i items)
  obtain k x where i: "i = (k, x)" by (cases i)
  show ?case
    unfolding i using Cons.IH untouched_publish
    by (simp add: timers_untouched_def)
qed

lemma untouched_publish_flag_property:
  "timers_untouched s (snd (publish_flag_property d name v flags s))"
  by (simp add: publish_flag_property_def untouched_refl untouched_publish_flags
        split: option.split)

lemma untouched_publish_device_property:
  "timers_untouched s (snd (publish_device_property lib d dev name v s))"
  unfolding publish_device_property_def
  by (simp add: untouched_refl untouched_publish untouched_publish_flag_property
        untouched_publish_category_items split: option.split pyval.split)

lemma untouched_publish_device_changes:
  "timers_untouched s (snd (publish_device_changes lib d dev changes s))"
  by (induction changes arbitrary: s)
     (auto simp add: untouched_refl intro!: untouched_and_then untouched_publish_device_property)

lemma untouched_device_on_properties_changed:
  "timers_untouched s (snd (device_on_properties_changed cfg lib dev changes s))"
  by (simp add: device_on_properties_changed_def untouched_refl untouched_publish_device_changes
        split: option.split)

lemma untouched_mqtt_on_connect: "timers_untouched s (mqtt_on_connect cfg bu now rc s)"
  by (simp add: timers_untouched_def mqtt_on_connect_def publish_def log_def subscribe_all_def
        Let_def split: option.split)

lemma untouched_mqtt_on_disconnect: "timers_untouched s (mqtt_on_disconnect now rc s)"
  by (simp add: timers_untouched_def mqtt_on_disconnect_def log_def)

lemma untouched_on_message_baseunit:
  "timers_untouched s (snd (on_message_baseunit cfg lib st payload s))"
  by (simp add: timers_untouched_def on_message_baseunit_def publish_def log_def create_task_def
        Let_def split: option.split sum.split)

lemma untouched_on_message_set_datetime:
  "timers_untouched s (snd (on_message_set_datetime lib payload s))"
  by (simp add: timers_untouched_def on_message_set_datetime_def create_task_def
        split: option.split sum.split)

lemma untouched_on_message: "timers_untouched s (snd (on_message cfg bu payload s))"
  by (simp add: on_message_def untouched_refl untouched_publish_ha_config split: sum.split)

lemma untouched_call_handler:
  "timers_untouched s (snd (call_handler cfg lib bu st payload s))"
  by (simp add: call_handler_def on_message_clear_status_def untouched_create_task
        untouched_on_message_set_datetime untouched_on_message_baseunit untouched_on_message
        split: handler.split)

lemma untouched_deliver: "timers_untouched s (deliver cfg lib bu topic payload s)"
proof (cases "map_of (rev (map (\<lambda>st. (st_topic st, st)) (subscribetopics cfg))) topic")
  case None
  then show ?thesis by (simp add: deliver_def untouched_log)
next
  case (Some st)
  obtain e s' where r: "call_handler cfg lib bu st payload s = (e, s')"
    by (cases "call_handler cfg lib bu st payload s")
  with untouched_call_handler [of s cfg lib bu st payload] have "timers_untouched s s'"
    by simp
  with Some r show ?thesis
    by (auto simp add: deliver_def split: option.split intro: untouched_trans untouched_log)
qed

lemma untouched_signal_shutdown: "timers_untouched s (signal_shutdown s)"
  by (simp add: timers_untouched_def signal_shutdown_def)

lemma untouched_async_loop_exit: "timers_untouched s (snd (async_loop_exit cfg s))"
  by (simp add: async_loop_exit_def untouched_publish_baseunit_property)

lemma inv_untouched:
  "timers_untouched s s' \<Longrightarrow> auto_reset_inv cfg s \<Longrightarrow> auto_reset_inv cfg s'"
  by (simp add: timers_untouched_def auto_reset_inv_def live_timers_def)

lemma trigger_fields:
  assumes "map_of (devices cfg) (device_id dev) = Some dc" and "device_topic dc \<noteq> []"
  shows "timers (device_on_event cfg now dev DeviceEventCode_Trigger s) =
      (case map_of (auto_reset_handles s) (device_id dev) of
         None \<Rightarrow> timers s
       | Some h \<Rightarrow> timers (cancel h s)) @
      [\<lparr>handle = next_handle s, due = now + interval_or_default (auto_reset_interval dc),
        arg = device_id dev, cancelled = False\<rparr>]"
    and "auto_reset_handles (device_on_event cfg now dev DeviceEventCode_Trigger s) =
      AList.update (device_id dev) (next_handle s) (auto_reset_handles s)"
    and "next_handle (device_on_event cfg now dev DeviceEventCode_Trigger s) = Suc (next_handle s)"
    and "trace (device_on_event cfg now dev DeviceEventCode_Trigger s) =
      trace s @
      [Publish (device_topic dc @ ''/event_code'') (PyDeviceEventCode DeviceEventCode_Trigger) QOS_1 False,
       Publish (device_topic dc) (PyOnOff On) QOS_1 True] @
      (case map_of (auto_reset_handles s) (device_id dev) of None \<Rightarrow> [] | Some h \<Rightarrow> [Cancel h]) @
      [CallLater (next_handle s) (interval_or_default (auto_reset_interval dc)) (device_id dev)]"
  using assms
  by (simp_all add: device_on_event_def publish_def cancel_def call_later_def Let_def
        OnOff_parse_value_def split: option.split)

lemma trigger_live:
  assumes "map_of (devices cfg) (device_id dev) = Some dc" and "device_topic dc \<noteq> []"
  shows "live_timers (device_on_event cfg now dev DeviceEventCode_Trigger s) =
      (case map_of (auto_reset_handles s) (device_id dev) of
         None \<Rightarrow> live_timers s
       | Some h \<Rightarrow> filter (\<lambda>t. handle t \<noteq> h) (live_timers s)) @
      [\<lparr>handle = next_handle s, due = now + interval_or_default (auto_reset_interval dc),
        arg = device_id dev, cancelled = False\<rparr>]"
  using live_timers_cancel [of _ s]
  by (simp add: live_timers_def trigger_fields(1) [OF assms] split: option.split)

lemma not_trigger_untouched:
  assumes "ec \<noteq> DeviceEventCode_Trigger \<or> map_of (devices cfg) (device_id dev) = None
      \<or> (\<exists>dc. map_of (devices cfg) (device_id dev) = Some dc \<and> device_topic dc = [])"
  shows "timers_untouched s (device_on_event cfg now dev ec s)"
  using assms
  by (auto simp add: timers_untouched_def device_on_event_def publish_def Let_def
        split: option.split)

lemma inv_trigger:
  assumes cfg: "map_of (devices cfg) (device_id dev) = Some dc" "device_topic dc \<noteq> []"
    and inv: "auto_reset_inv cfg s"
  shows "auto_reset_inv cfg (device_on_event cfg now dev DeviceEventCode_Trigger s)"
proof -
  let ?s' = "device_on_event cfg now dev DeviceEventCode_Trigger s"
  let ?d = "device_id dev"
  let ?H = "auto_reset_handles s"
  from inv have dk: "distinct (map fst ?H)" and dh: "distinct (map handle (timers s))"
    and lt: "list_all (\<lambda>t. handle t < next_handle s) (timers s)"
    and cf: "list_all (\<lambda>t. case map_of (devices cfg) (arg t) of None \<Rightarrow> False
                         | Some dc \<Rightarrow> device_topic dc \<noteq> []) (timers s)"
    and img: "set ?H = set (map (\<lambda>t. (arg t, handle t)) (live_timers s))"
    by (simp_all add: auto_reset_inv_def)
  have mh: "map handle (timers ?s') = map handle (timers s) @ [next_handle s]"
    by (simp add: trigger_fields(1) [OF cfg] handles_cancel split: option.split)
  have ma: "map arg (timers ?s') = map arg (timers s) @ [?d]"
    by (simp add: trigger_fields(1) [OF cfg] args_cancel split: option.split)
  have 1: "distinct (map fst (auto_reset_handles ?s'))"
    by (simp add: trigger_fields(2) [OF cfg] dk distinct_update)
  from lt have fresh: "next_handle s \<notin> set (map handle (timers s))"
    by (auto simp add: list_all_iff)
  have 2: "distinct (map handle (timers ?s'))"
    unfolding mh using dh fresh by simp
  from lt have "list_all (\<lambda>h. h < Suc (next_handle s)) (map handle (timers s) @ [next_handle s])"
    by (auto simp add: list_all_iff)
  then have 3: "list_all (\<lambda>t. handle t < next_handle ?s') (timers ?s')"
    unfolding mh [symmetric] trigger_fields(3) [OF cfg] by (simp add: list_all_iff)
  from cf cfg have "list_all (\<lambda>a. case map_of (devices cfg) a of None \<Rightarrow> False
                         | Some dc \<Rightarrow> device_topic dc \<noteq> []) (map arg (timers s) @ [?d])"
    by (auto simp add: list_all_iff)
  then have 4: "list_all (\<lambda>t. case map_of (devices cfg) (arg t) of None \<Rightarrow> False
                         | Some dc \<Rightarrow> device_topic dc \<noteq> []) (timers ?s')"
    unfolding ma [symmetric] by (simp add: list_all_iff)
  have 5: "set (auto_reset_handles ?s') = set (map (\<lambda>t. (arg t, handle t)) (live_timers ?s'))"
  proof (cases "map_of ?H ?d")
    case None
    then have "{p \<in> set ?H. fst p \<noteq> ?d} = set ?H"
      by (force simp add: map_of_eq_None_iff)
    with None show ?thesis
      by (simp add: trigger_fields(2) [OF cfg] trigger_live [OF cfg] set_update_distinct [OF dk] img)
  next
    case (Some h)
    then have "(?d, h) \<in> set ?H" by (rule map_of_SomeD)
    from inv_without_entry [OF inv this] Some show ?thesis
      by (simp add: trigger_fields(2) [OF cfg] trigger_live [OF cfg] set_update_distinct [OF dk])
  qed
  from 1 2 3 4 5 show ?thesis
    unfolding auto_reset_inv_def by blast
qed

lemma inv_device_on_event:
  assumes "auto_reset_inv cfg s"
  shows "auto_reset_inv cfg (device_on_event cfg now dev ec s)"
proof (cases "ec = DeviceEventCode_Trigger \<and>
    (\<exists>dc. map_of (devices cfg) (device_id dev) = Some dc \<and> device_topic dc \<noteq> [])")
  case True
  with assms show ?thesis by (auto intro: inv_trigger)
next
  case False
  then have "timers_untouched s (device_on_event cfg now dev ec s)"
    by (intro not_trigger_untouched) (cases "map_of (devices cfg) (device_id dev)", auto)
  then show ?thesis using assms by (rule inv_untouched)
qed

lemma find_by_handle:
  "distinct (map handle ts) \<Longrightarrow> t \<in> set ts \<Longrightarrow> find (\<lambda>u. handle u = handle t) ts = Some t"
  by (induction ts) (auto simp add: rev_image_eqI)

lemma live_entry:
  assumes inv: "auto_reset_inv cfg s" and t: "t \<in> set (timers s)" "\<not> cancelled t"
  shows "(arg t, handle t) \<in> set (auto_reset_handles s)"
    and "map_of (auto_reset_handles s) (arg t) = Some (handle t)"
    and "\<exists>dc. map_of (devices cfg) (arg t) = Some dc \<and> device_topic dc \<noteq> []"
proof -
  from inv t show mem: "(arg t, handle t) \<in> set (auto_reset_handles s)"
    by (auto simp add: auto_reset_inv_def live_timers_def)
  from inv have "distinct (map fst (auto_reset_handles s))"
    by (simp add: auto_reset_inv_def)
  then show "map_of (auto_reset_handles s) (arg t) = Some (handle t)"
    using mem by (rule map_of_is_SomeI)
  from inv t(1) show "\<exists>dc. map_of (devices cfg) (arg t) = Some dc \<and> device_topic dc \<noteq> []"
    by (auto simp add: auto_reset_inv_def list_all_iff split: option.splits)
qed

lemma run_timer_fires:
  assumes inv: "auto_reset_inv cfg s" and t: "t \<in> set (timers s)" "\<not> cancelled t"
    and due: "due t \<le> now" and dc: "map_of (devices cfg) (arg t) = Some dc"
  shows "run_timer cfg now (handle t) s =
    (None, s\<lparr>timers := filter (\<lambda>u. handle u \<noteq> handle t) (timers s),
             auto_reset_handles := AList.delete (arg t) (auto_reset_handles s),
             trace := trace s @ [Publish (device_topic dc) (PyOnOff Off) QOS_1 True]\<rparr>)"
proof -
  from inv have "distinct (map handle (timers s))"
    by (simp add: auto_reset_inv_def)
  then have f: "find (\<lambda>u. handle u = handle t) (timers s) = Some t"
    using t(1) by (rule find_by_handle)
  from live_entry(3) [OF inv t] dc have topic: "device_topic dc \<noteq> []" by simp
  from live_entry(2) [OF inv t] f t due dc topic show ?thesis
    by (simp add: run_timer_def auto_reset_def publish_def OnOff_parse_value_def Let_def)
qed

lemma run_timer_idle:
  assumes "\<forall>t \<in> set (timers s). handle t = h \<longrightarrow> cancelled t \<or> now < due t"
  shows "run_timer cfg now h s = (None, s)"
proof (cases "find (\<lambda>t. handle t = h) (timers s)")
  case None
  then show ?thesis by (simp add: run_timer_def)
next
  case (Some t)
  then have "t \<in> set (timers s)" "handle t = h"
    by (auto simp add: find_Some_iff)
  with assms Some show ?thesis by (auto simp add: run_timer_def)
qed

lemma inv_run_timer:
  assumes inv: "auto_reset_inv cfg s"
  shows "fst (run_timer cfg now h s) = None \<and> auto_reset_inv cfg (snd (run_timer cfg now h s))"
proof (cases "\<forall>t \<in> set (timers s). handle t = h \<longrightarrow> cancelled t \<or> now < due t")
  case True
  then show ?thesis using inv by (simp add: run_timer_idle)
next
  case False
  then obtain t where t: "t \<in> set (timers s)" "handle t = h" "\<not> cancelled t" "due t \<le> now"
    by auto
  from live_entry(3) [OF inv t(1) t(3)] obtain dc
    where dc: "map_of (devices cfg) (arg t) = Some dc" by blast
  let ?s' = "s\<lparr>timers := filter (\<lambda>u. handle u \<noteq> handle t) (timers s),
             auto_reset_handles := AList.delete (arg t) (auto_reset_handles s),
             trace := trace s @ [Publish (device_topic dc) (PyOnOff Off) QOS_1 True]\<rparr>"
  have r: "run_timer cfg now h s = (None, ?s')"
    using run_timer_fires [OF inv t(1) t(3) t(4) dc] t(2) by simp
  have live: "live_timers ?s' = filter (\<lambda>u. handle u \<noteq> handle t) (live_timers s)"
    by (simp add: live_timers_def conj_commute)
  from inv have "auto_reset_inv cfg ?s'"
    using inv_without_entry [OF inv live_entry(1) [OF inv t(1) t(3)]]
    by (simp add: auto_reset_inv_def live distinct_delete distinct_map_filter set_delete
          list_all_iff)
  with r show ?thesis by simp
qed

lemma inv_alt:
  "auto_reset_inv cfg s \<longleftrightarrow>
     distinct (map fst (auto_reset_handles s))
   \<and> distinct (map handle (timers s))
   \<and> (\<forall>h \<in> set (map handle (timers s)). h < next_handle s)
   \<and> (\<forall>a \<in> set (map arg (timers s)).
         case map_of (devices cfg) a of None \<Rightarrow> False | Some dc \<Rightarrow> device_topic dc \<noteq> [])
   \<and> set (auto_reset_handles s) = (\<lambda>t. (arg t, handle t)) ` set (live_timers s)"
  by (simp add: auto_reset_inv_def list_all_iff)

lemma delete_absent: "k \<notin> fst ` set al \<Longrightarrow> AList.delete k al = al"
  by (induction al) auto

lemma cancel_outstanding_inv:
  assumes "auto_reset_inv cfg s" and "auto_reset_handles s = items"
  shows "\<exists>s'. cancel_outstanding items s = (None, s') \<and> auto_reset_inv cfg s' \<and>
           auto_reset_handles s' = [] \<and>
           trace s' = trace s @ map (\<lambda>(k, h). Cancel h) items"
  using assms
proof (induction items arbitrary: s)
  case Nil
  then show ?case by simp
next
  case (Cons i items)
  obtain k h where i: "i = (k, h)" by (cases i)
  let ?s1 = "cancel h s"
  let ?s2 = "?s1\<lparr>auto_reset_handles := AList.delete k (auto_reset_handles ?s1)\<rparr>"
  from Cons.prems have H: "auto_reset_handles s = (k, h) # items"
    and dk: "distinct (map fst ((k, h) # items))"
    by (simp_all add: i auto_reset_inv_def)
  have H1: "auto_reset_handles ?s1 = (k, h) # items"
    by (simp add: cancel_def H)
  from dk have "k \<notin> fst ` set items"
    by auto
  then have absent: "AList.delete k items = items"
    by (rule delete_absent)
  have "AList.delete k ((k, h) # items) = AList.delete k items"
    by simp
  also note absent
  finally have del: "AList.delete k ((k, h) # items) = items" .
  have H2: "auto_reset_handles ?s2 = items"
    by (simp add: H1 absent)
  have mem: "(k, h) \<in> set (auto_reset_handles s)"
    by (simp add: H)
  have live: "live_timers ?s2 = filter (\<lambda>t. handle t \<noteq> h) (live_timers s)"
    using live_timers_cancel [of h s] by (simp add: live_timers_def)
  have mh: "map handle (timers ?s2) = map handle (timers s)"
    using handles_cancel [of h s] by simp
  have ma: "map arg (timers ?s2) = map arg (timers s)"
    using args_cancel [of h s] by simp
  have nh: "next_handle ?s2 = next_handle s"
    by (simp add: cancel_def)
  have "{p \<in> set ((k, h) # items). fst p \<noteq> k} = set items"
    using \<open>k \<notin> fst ` set items\<close> by force
  with inv_without_entry [OF Cons.prems(1) mem]
  have img: "set items = (\<lambda>t. (arg t, handle t)) ` set (live_timers ?s2)"
    unfolding live H by simp
  have inv2: "auto_reset_inv cfg ?s2"
    using Cons.prems(1) dk img
    unfolding inv_alt mh ma nh H2 by simp
  from Cons.IH [OF inv2 H2] obtain s' where
    s': "cancel_outstanding items ?s2 = (None, s')" "auto_reset_inv cfg s'"
      "auto_reset_handles s' = []" "trace s' = trace ?s2 @ map (\<lambda>(k, h). Cancel h) items"
    by blast
  have "cancel_outstanding (i # items) s = cancel_outstanding items ?s2"
    by (simp add: i Let_def H1)
  with s' show ?case
    by (simp add: i cancel_def)
qed

lemma inv_async_stop:
  assumes inv: "auto_reset_inv cfg s"
  shows "\<exists>s'. async_stop s = (None, s') \<and> auto_reset_inv cfg s' \<and> auto_reset_handles s' = [] \<and>
     live_timers s' = [] \<and>
     trace s' = trace s @ [BaseUnitStop] @ map (\<lambda>(k, h). Cancel h) (auto_reset_handles s) @
       [MqttLoopStop, MqttDisconnect]"
proof -
  let ?s0 = "s\<lparr>trace := trace s @ [BaseUnitStop]\<rparr>"
  have "timers_untouched s ?s0" by (simp add: timers_untouched_def)
  then have inv0: "auto_reset_inv cfg ?s0" using inv by (rule inv_untouched)
  from cancel_outstanding_inv [OF inv0, of "auto_reset_handles s"] obtain s1 where
    s1: "cancel_outstanding (auto_reset_handles s) ?s0 = (None, s1)" "auto_reset_inv cfg s1"
      "auto_reset_handles s1 = []"
      "trace s1 = trace ?s0 @ map (\<lambda>(k, h). Cancel h) (auto_reset_handles s)"
    by auto
  let ?s' = "s1\<lparr>trace := trace s1 @ [MqttLoopStop, MqttDisconnect]\<rparr>"
  have "timers_untouched s1 ?s'" by (simp add: timers_untouched_def)
  then have inv': "auto_reset_inv cfg ?s'" using s1(2) by (rule inv_untouched)
  have "live_timers ?s' = []"
    using inv' s1(3) by (simp add: auto_reset_inv_def)
  with s1 inv' show ?thesis
    by (simp add: async_stop_def and_then_def)
qed

lemma inv_init: "auto_reset_inv cfg init"
  by (simp add: auto_reset_inv_def init_def live_timers_def)

lemma inv_step:
  assumes "auto_reset_inv cfg s"
  shows "auto_reset_inv cfg (step cfg lib now bu n s)"
proof (cases n)
  case (DeviceEvent dev ec)
  with assms show ?thesis by (simp add: inv_device_on_event)
next
  case (TimerDue h)
  with assms inv_run_timer [of cfg s now h] show ?thesis by simp
next
  case StopRequested
  with inv_async_stop [OF assms] show ?thesis by auto
qed (use assms in \<open>auto intro: inv_untouched [rotated]
      untouched_baseunit_device_added untouched_baseunit_device_deleted
      untouched_baseunit_event untouched_baseunit_properties_changed
      untouched_device_on_properties_changed untouched_mqtt_on_connect
      untouched_mqtt_on_disconnect untouched_deliver untouched_signal_shutdown
      untouched_async_loop_exit\<close>)

lemma inv_run:
  "auto_reset_inv cfg s \<Longrightarrow> auto_reset_inv cfg (run cfg lib inputs s)"
proof (induction inputs arbitrary: s)
  case Nil
  then show ?case by simp
next
  case (Cons i inputs)
  obtain now bu n where i: "i = (now, bu, n)" by (cases i)
  from Cons show ?case
    unfolding i by (simp add: inv_step)
qed

lemma one_live_timer_per_device:
  assumes inv: "auto_reset_inv cfg s"
  shows "distinct (map arg (live_timers s))"
proof -
  from inv have dh: "distinct (map handle (timers s))"
    by (simp add: auto_reset_inv_def)
  then have "distinct (timers s)"
    by (simp add: distinct_map)
  then have dl: "distinct (live_timers s)"
    by (simp add: live_timers_def)
  have "inj_on arg (set (live_timers s))"
  proof (rule inj_onI)
    fix t u
    assume t: "t \<in> set (live_timers s)" and u: "u \<in> set (live_timers s)" and eq: "arg t = arg u"
    from t u have tt: "t \<in> set (timers s)" "\<not> cancelled t" and uu: "u \<in> set (timers s)" "\<not> cancelled u"
      by (simp_all add: live_timers_def)
    from live_entry(2) [OF inv tt] live_entry(2) [OF inv uu] eq have "handle t = handle u"
      by simp
    moreover from dh have "inj_on handle (set (timers s))"
      by (simp add: distinct_map)
    ultimately show "t = u"
      using tt(1) uu(1) by (auto dest: inj_onD)
  qed
  with dl show ?thesis
    by (simp add: distinct_map)
qed

lemma trigger_restarts_countdown:
  assumes cfg: "map_of (devices cfg) (device_id dev) = Some dc" "device_topic dc \<noteq> []"
    and inv: "auto_reset_inv cfg s"
  shows "filter (\<lambda>t. arg t = device_id dev)
           (live_timers (device_on_event cfg now dev DeviceEventCode_Trigger s)) =
         [\<lparr>handle = next_handle s, due = now + interval_or_default (auto_reset_interval dc),
           arg = device_id dev, cancelled = False\<rparr>]"
proof -
  let ?d = "device_id dev"
  have live: "t \<in> set (live_timers s) \<Longrightarrow> arg t = ?d \<Longrightarrow>
      map_of (auto_reset_handles s) ?d = Some (handle t)" for t
    using live_entry(2) [OF inv, of t] by (simp add: live_timers_def)
  have "filter (\<lambda>t. arg t = ?d)
          (case map_of (auto_reset_handles s) ?d of
             None \<Rightarrow> live_timers s
           | Some h \<Rightarrow> filter (\<lambda>t. handle t \<noteq> h) (live_timers s)) = []"
    using live by (auto simp add: filter_empty_conv split: option.split)
  then show ?thesis
    by (simp add: trigger_live [OF cfg])
qed

lemma fired_timer_gone:
  assumes inv: "auto_reset_inv cfg s" and t: "t \<in> set (live_timers s)"
  shows "filter (\<lambda>u. arg u = arg t) (filter (\<lambda>u. handle u \<noteq> handle t) (live_timers s)) = []"
proof -
  have "u \<in> set (live_timers s) \<Longrightarrow> arg u = arg t \<Longrightarrow> handle u = handle t" for u
  proof -
    assume u: "u \<in> set (live_timers s)" "arg u = arg t"
    from u(1) t have "map_of (auto_reset_handles s) (arg u) = Some (handle u)"
      "map_of (auto_reset_handles s) (arg t) = Some (handle t)"
      using live_entry(2) [OF inv] by (simp_all add: live_timers_def)
    with u(2) show "handle u = handle t" by simp
  qed
  then show ?thesis
    by (auto simp add: filter_empty_conv)
qed

lemma two_arms_one_reset:
  assumes cfg: "map_of (devices cfg) (device_id dev) = Some dc" "device_topic dc \<noteq> []"
    and times: "early < second_arm + interval_or_default (auto_reset_interval dc)"
      "second_arm + interval_or_default (auto_reset_interval dc) \<le> late"
  shows "trace (run cfg lib
      [(first_arm, bu, DeviceEvent dev DeviceEventCode_Trigger),
       (second_arm, bu, DeviceEvent dev DeviceEventCode_Trigger),
       (early, bu, TimerDue 0), (early, bu, TimerDue 1),
       (late, bu, TimerDue 0), (late, bu, TimerDue 1),
       (later, bu, TimerDue 0), (later, bu, TimerDue 1)] init) =
    [Publish (device_topic dc @ ''/event_code'') (PyDeviceEventCode DeviceEventCode_Trigger) QOS_1 False,
     Publish (device_topic dc) (PyOnOff On) QOS_1 True,
     CallLater 0 (interval_or_default (auto_reset_interval dc)) (device_id dev),
     Publish (device_topic dc @ ''/event_code'') (PyDeviceEventCode DeviceEventCode_Trigger) QOS_1 False,
     Publish (device_topic dc) (PyOnOff On) QOS_1 True,
     Cancel 0,
     CallLater 1 (interval_or_default (auto_reset_interval dc)) (device_id dev),
     Publish (device_topic dc) (PyOnOff Off) QOS_1 True]"
  using assms
  by (simp add: device_on_event_def publish_def cancel_def call_later_def Let_def
        OnOff_parse_value_def init_def run_timer_def auto_reset_def)

lemma run_timer_not_due:
  assumes inv: "auto_reset_inv cfg s" and t: "t \<in> set (timers s)"
    and idle: "cancelled t \<or> now < due t"
  shows "run_timer cfg now (handle t) s = (None, s)"
proof -
  from inv have "distinct (map handle (timers s))"
    by (simp add: auto_reset_inv_def)
  then have "find (\<lambda>u. handle u = handle t) (timers s) = Some t"
    using t by (rule find_by_handle)
  with idle show ?thesis
    by (auto simp add: run_timer_def)
qed

text \<open>
  Claim C4. Every state the translator can reach from its initial state, whatever the
  calls made on it, satisfies the discipline of the auto-reset table: the table has one
  entry per device id at most, its entries are exactly the live timers of the loop, and
  no two live timers are for the same device. A Trigger event for a configured device
  cancels the handle the table holds for the device, if any, before \<open>call_later\<close>, records
  the new handle, and leaves the new timer, due one interval after this event, as the
  only live timer of the device. A timer that was cancelled or is not yet due does not
  run; a live timer that is due publishes Off retained on its device's topic and removes
  the device's entry. \<open>async_stop\<close> cancels the handle of every entry and leaves the table
  and the live timers empty. Two Trigger events for one device, the second before the
  first timer is due, give one Off publish, when the second timer is due.
\<close>

theorem auto_reset_one_live_timer_per_device:
  "auto_reset_inv cfg (run cfg lib inputs init)
   \<and> (auto_reset_inv cfg s \<longrightarrow>
        distinct (map fst (auto_reset_handles s)) \<and> distinct (map arg (live_timers s))
      \<and> set (auto_reset_handles s) = set (map (\<lambda>t. (arg t, handle t)) (live_timers s)))
   \<and> (auto_reset_inv cfg s \<and> map_of (devices cfg) (device_id dev) = Some dc \<and>
       device_topic dc \<noteq> [] \<longrightarrow>
        trace (device_on_event cfg now dev DeviceEventCode_Trigger s) =
          trace s @
          [Publish (device_topic dc @ ''/event_code'')
             (PyDeviceEventCode DeviceEventCode_Trigger) QOS_1 False,
           Publish (device_topic dc) (PyOnOff On) QOS_1 True] @
          (case map_of (auto_reset_handles s) (device_id dev) of
             None \<Rightarrow> []
           | Some h \<Rightarrow> [Cancel h]) @
          [CallLater (next_handle s) (interval_or_default (auto_reset_interval dc))
             (device_id dev)]
      \<and> auto_reset_handles (device_on_event cfg now dev DeviceEventCode_Trigger s) =
          AList.update (device_id dev) (next_handle s) (auto_reset_handles s)
      \<and> filter (\<lambda>t. arg t = device_id dev)
          (live_timers (device_on_event cfg now dev DeviceEventCode_Trigger s)) =
          [\<lparr>handle = next_handle s,
            due = now + interval_or_default (auto_reset_interval dc),
            arg = device_id dev, cancelled = False\<rparr>])
   \<and> (auto_reset_inv cfg s \<and> t \<in> set (timers s) \<and> (cancelled t \<or> now < due t) \<longrightarrow>
        run_timer cfg now (handle t) s = (None, s))
   \<and> (auto_reset_inv cfg s \<and> t \<in> set (timers s) \<and> \<not> cancelled t \<and> due t \<le> now \<and>
       map_of (devices cfg) (arg t) = Some dc \<longrightarrow>
        run_timer cfg now (handle t) s =
          (None, s\<lparr>timers := filter (\<lambda>u. handle u \<noteq> handle t) (timers s),
                   auto_reset_handles := AList.delete (arg t) (auto_reset_handles s),
                   trace := trace s @ [Publish (device_topic dc) (PyOnOff Off) QOS_1 True]\<rparr>)
      \<and> map_of (AList.delete (arg t) (auto_reset_handles s)) (arg t) = None
      \<and> filter (\<lambda>u. arg u = arg t) (live_timers (snd (run_timer cfg now (handle t) s))) = [])
   \<and> (auto_reset_inv cfg s \<longrightarrow>
        (\<exists>s'. async_stop s = (None, s') \<and> auto_reset_handles s' = [] \<and> live_timers s' = [] \<and>
           trace s' = trace s @ [BaseUnitStop] @
             map (\<lambda>(k, h). Cancel h) (auto_reset_handles s) @ [MqttLoopStop, MqttDisconnect]))
   \<and> (map_of (devices cfg) (device_id dev) = Some dc \<and> device_topic dc \<noteq> [] \<and>
       early < second_arm + interval_or_default (auto_reset_interval dc) \<and>
       second_arm + interval_or_default (auto_reset_interval dc) \<le> late \<longrightarrow>
        trace (run cfg lib
          [(first_arm, bu, DeviceEvent dev DeviceEventCode_Trigger),
           (second_arm, bu, DeviceEvent dev DeviceEventCode_Trigger),
           (early, bu, TimerDue 0), (early, bu, TimerDue 1),
           (late, bu, TimerDue 0), (late, bu, TimerDue 1),
           (later, bu, TimerDue 0), (later, bu, TimerDue 1)] init) =
        [Publish (device_topic dc @ ''/event_code'')
           (PyDeviceEventCode DeviceEventCode_Trigger) QOS_1 False,
         Publish (device_topic dc) (PyOnOff On) QOS_1 True,
         CallLater 0 (interval_or_default (auto_reset_interval dc)) (device_id dev),
         Publish (device_topic dc @ ''/event_code'')
           (PyDeviceEventCode DeviceEventCode_Trigger) QOS_1 False,
         Publish (device_topic dc) (PyOnOff On) QOS_1 True,
         Cancel 0,
         CallLater 1 (interval_or_default (auto_reset_interval dc)) (device_id dev),
         Publish (device_topic dc) (PyOnOff Off) QOS_1 True])"
proof (intro conjI impI)
  show "auto_reset_inv cfg (run cfg lib inputs init)"
    by (rule inv_run [OF inv_init])
next
  assume "auto_reset_inv cfg s"
  then show "distinct (map fst (auto_reset_handles s))"
    and "set (auto_reset_handles s) = set (map (\<lambda>t. (arg t, handle t)) (live_timers s))"
    by (simp_all add: auto_reset_inv_def)
next
  assume "auto_reset_inv cfg s"
  then show "distinct (map arg (live_timers s))"
    by (rule one_live_timer_per_device)
next
  assume a: "auto_reset_inv cfg s \<and> map_of (devices cfg) (device_id dev) = Some dc \<and>
    device_topic dc \<noteq> []"
  then have cfg: "map_of (devices cfg) (device_id dev) = Some dc" "device_topic dc \<noteq> []"
    and inv: "auto_reset_inv cfg s"
    by simp_all
  show "trace (device_on_event cfg now dev DeviceEventCode_Trigger s) =
          trace s @
          [Publish (device_topic dc @ ''/event_code'')
             (PyDeviceEventCode DeviceEventCode_Trigger) QOS_1 False,
           Publish (device_topic dc) (PyOnOff On) QOS_1 True] @
          (case map_of (auto_reset_handles s) (device_id dev) of
             None \<Rightarrow> []
           | Some h \<Rightarrow> [Cancel h]) @
          [CallLater (next_handle s) (interval_or_default (auto_reset_interval dc))
             (device_id dev)]"
    by (rule trigger_fields(4) [OF cfg])
  show "auto_reset_handles (device_on_event cfg now dev DeviceEventCode_Trigger s) =
          AList.update (device_id dev) (next_handle s) (auto_reset_handles s)"
    by (rule trigger_fields(2) [OF cfg])
  show "filter (\<lambda>t. arg t = device_id dev)
          (live_timers (device_on_event cfg now dev DeviceEventCode_Trigger s)) =
          [\<lparr>handle = next_handle s,
            due = now + interval_or_default (auto_reset_interval dc),
            arg = device_id dev, cancelled = False\<rparr>]"
    by (rule trigger_restarts_countdown [OF cfg inv])
next
  assume "auto_reset_inv cfg s \<and> t \<in> set (timers s) \<and> (cancelled t \<or> now < due t)"
  then show "run_timer cfg now (handle t) s = (None, s)"
    by (simp add: run_timer_not_due)
next
  assume a: "auto_reset_inv cfg s \<and> t \<in> set (timers s) \<and> \<not> cancelled t \<and> due t \<le> now \<and>
       map_of (devices cfg) (arg t) = Some dc"
  then have fires: "run_timer cfg now (handle t) s =
          (None, s\<lparr>timers := filter (\<lambda>u. handle u \<noteq> handle t) (timers s),
                   auto_reset_handles := AList.delete (arg t) (auto_reset_handles s),
                   trace := trace s @ [Publish (device_topic dc) (PyOnOff Off) QOS_1 True]\<rparr>)"
    by (simp add: run_timer_fires)
  then show "run_timer cfg now (handle t) s =
          (None, s\<lparr>timers := filter (\<lambda>u. handle u \<noteq> handle t) (timers s),
                   auto_reset_handles := AList.delete (arg t) (auto_reset_handles s),
                   trace := trace s @ [Publish (device_topic dc) (PyOnOff Off) QOS_1 True]\<rparr>)" .
  show "map_of (AList.delete (arg t) (auto_reset_handles s)) (arg t) = None"
    by (simp add: delete_conv)
  from a have inv: "auto_reset_inv cfg s" and "t \<in> set (live_timers s)"
    by (simp_all add: live_timers_def)
  then have "filter (\<lambda>u. arg u = arg t)
      (filter (\<lambda>u. handle u \<noteq> handle t) (live_timers s)) = []"
    by (rule fired_timer_gone)
  moreover have "live_timers (snd (run_timer cfg now (handle t) s)) =
      filter (\<lambda>u. handle u \<noteq> handle t) (live_timers s)"
    unfolding fires by (simp add: live_timers_def conj_commute)
  ultimately show "filter (\<lambda>u. arg u = arg t)
      (live_timers (snd (run_timer cfg now (handle t) s))) = []"
    by simp
next
  assume "auto_reset_inv cfg s"
  from inv_async_stop [OF this]
  show "\<exists>s'. async_stop s = (None, s') \<and> auto_reset_handles s' = [] \<and> live_timers s' = [] \<and>
           trace s' = trace s @ [BaseUnitStop] @
             map (\<lambda>(k, h). Cancel h) (auto_reset_handles s) @ [MqttLoopStop, MqttDisconnect]"
    by blast
next
  assume "map_of (devices cfg) (device_id dev) = Some dc \<and> device_topic dc \<noteq> [] \<and>
       early < second_arm + interval_or_default (auto_reset_interval dc) \<and>
       second_arm + interval_or_default (auto_reset_interval dc) \<le> late"
  then have "map_of (devices cfg) (device_id dev) = Some dc" "device_topic dc \<noteq> []"
    "early < second_arm + interval_or_default (auto_reset_interval dc)"
    "second_arm + interval_or_default (auto_reset_interval dc) \<le> late"
    by simp_all
  then show "trace (run cfg lib
          [(first_arm, bu, DeviceEvent dev DeviceEventCode_Trigger),
           (second_arm, bu, DeviceEvent dev DeviceEventCode_Trigger),
           (early, bu, TimerDue 0), (early, bu, TimerDue 1),
           (late, bu, TimerDue 0), (late, bu, TimerDue 1),
           (later, bu, TimerDue 0), (later, bu, TimerDue 1)] init) =
        [Publish (device_topic dc @ ''/event_code'')
           (PyDeviceEventCode DeviceEventCode_Trigger) QOS_1 False,
         Publish (device_topic dc) (PyOnOff On) QOS_1 True,
         CallLater 0 (interval_or_default (auto_reset_interval dc)) (device_id dev),
         Publish (device_topic dc @ ''/event_code'')
           (PyDeviceEventCode DeviceEventCode_Trigger) QOS_1 False,
         Publish (device_topic dc) (PyOnOff On) QOS_1 True,
         Cancel 0,
         CallLater 1 (interval_or_default (auto_reset_interval dc)) (device_id dev),
         Publish (device_topic dc) (PyOnOff Off) QOS_1 True]"
    by (rule two_arms_one_reset)
qed

lemma example_armed:
  "device_on_event example_config 0 example_device DeviceEventCode_Trigger init =
     init\<lparr>auto_reset_handles := [(1256634, 0)],
          timers := [\<lparr>handle = 0, due = 180, arg = 1256634, cancelled = False\<rparr>],
          next_handle := 1,
          trace := [Publish ''home/lounge/motion/event_code'' (PyDeviceEventCode DeviceEventCode_Trigger) 1 False,
                    Publish ''home/lounge/motion'' (PyOnOff On) 1 True,
                    CallLater 0 180 1256634]\<rparr>"
  by (simp add: device_on_event_def example_config_def example_device_def init_def publish_def
        call_later_def interval_or_default_def OnOff_parse_value_def QOS_1_def Let_def)

theorem auto_reset_one_live_timer_per_device_witness:
  "auto_reset_inv example_config
     (device_on_event example_config 0 example_device DeviceEventCode_Trigger init)
   \<and> filter (\<lambda>t. arg t = 1256634)
        (live_timers (device_on_event example_config 10 example_device DeviceEventCode_Trigger
          (device_on_event example_config 0 example_device DeviceEventCode_Trigger init))) =
       [\<lparr>handle = 1, due = 190, arg = 1256634, cancelled = False\<rparr>]
   \<and> run_timer example_config 179 0
        (device_on_event example_config 0 example_device DeviceEventCode_Trigger init) =
       (None, device_on_event example_config 0 example_device DeviceEventCode_Trigger init)
   \<and> snd (run_timer example_config 180 0
        (device_on_event example_config 0 example_device DeviceEventCode_Trigger init)) =
       init\<lparr>next_handle := 1,
          trace := [Publish ''home/lounge/motion/event_code'' (PyDeviceEventCode DeviceEventCode_Trigger) 1 False,
                    Publish ''home/lounge/motion'' (PyOnOff On) 1 True,
                    CallLater 0 180 1256634,
                    Publish ''home/lounge/motion'' (PyOnOff Off) 1 True]\<rparr>
   \<and> publishes (trace (run example_config example_library
          [(0, example_baseunit, DeviceEvent example_device DeviceEventCode_Trigger),
           (10, example_baseunit, DeviceEvent example_device DeviceEventCode_Trigger),
           (180, example_baseunit, TimerDue 0), (180, example_baseunit, TimerDue 1),
           (190, example_baseunit, TimerDue 0), (190, example_baseunit, TimerDue 1),
           (400, example_baseunit, TimerDue 0), (400, example_baseunit, TimerDue 1)] init)) =
       [Publish ''home/lounge/motion/event_code'' (PyDeviceEventCode DeviceEventCode_Trigger) 1 False,
        Publish ''home/lounge/motion'' (PyOnOff On) 1 True,
        Publish ''home/lounge/motion/event_code'' (PyDeviceEventCode DeviceEventCode_Trigger) 1 False,
        Publish ''home/lounge/motion'' (PyOnOff On) 1 True,
        Publish ''home/lounge/motion'' (PyOnOff Off) 1 True]
   \<and> auto_reset_handles (snd (async_stop
        (device_on_event example_config 0 example_device DeviceEventCode_Trigger init))) = []
   \<and> live_timers (snd (async_stop
        (device_on_event example_config 0 example_device DeviceEventCode_Trigger init))) = []"
proof -
  let ?dc = "\<lparr>device_topic = ''home/lounge/motion'', auto_reset_interval = Some 180,
     device_info = None\<rparr>"
  let ?s1 = "device_on_event example_config 0 example_device DeviceEventCode_Trigger init"
  let ?t = "\<lparr>handle = 0, due = 180, arg = 1256634, cancelled = False\<rparr>"
  have dc: "map_of (devices example_config) (device_id example_device) = Some ?dc"
    "device_topic ?dc \<noteq> []" "map_of (devices example_config) (arg ?t) = Some ?dc"
    by (simp_all add: example_config_def example_device_def)
  note inst = auto_reset_one_live_timer_per_device [where cfg = example_config
      and lib = example_library
      and inputs = "[(0, example_baseunit, DeviceEvent example_device DeviceEventCode_Trigger)]"
      and s = "?s1" and dev = example_device and dc = "?dc" and t = "?t"
      and first_arm = 0 and second_arm = 10 and early = 180 and late = 190 and later = 400
      and bu = example_baseunit]
  have inv: "auto_reset_inv example_config ?s1"
    using inst [where now = 0, THEN conjunct1] by simp
  have did: "device_id example_device = 1256634"
    by (simp add: example_device_def)
  have mem: "?t \<in> set (timers ?s1)"
    by (simp add: example_armed)
  have rearm: "filter (\<lambda>t. arg t = device_id example_device)
      (live_timers (device_on_event example_config 10 example_device DeviceEventCode_Trigger ?s1)) =
      [\<lparr>handle = next_handle ?s1, due = 10 + interval_or_default (auto_reset_interval ?dc),
        arg = device_id example_device, cancelled = False\<rparr>]"
    using inst [where now = 10, THEN conjunct2, THEN conjunct2, THEN conjunct1, THEN mp]
      inv dc(1,2) by blast
  have early: "run_timer example_config 179 (handle ?t) ?s1 = (None, ?s1)"
    using inst [where now = 179, THEN conjunct2, THEN conjunct2, THEN conjunct2,
        THEN conjunct1, THEN mp] inv mem by simp
  have fire: "run_timer example_config 180 (handle ?t) ?s1 =
      (None, ?s1\<lparr>timers := filter (\<lambda>u. handle u \<noteq> handle ?t) (timers ?s1),
                   auto_reset_handles := AList.delete (arg ?t) (auto_reset_handles ?s1),
                   trace := trace ?s1 @ [Publish (device_topic ?dc) (PyOnOff Off) QOS_1 True]\<rparr>)"
    using inst [where now = 180, THEN conjunct2, THEN conjunct2, THEN conjunct2,
        THEN conjunct2, THEN conjunct1, THEN mp] inv mem dc(3) by simp
  have "early_ok": "(180::int) < 10 + interval_or_default (auto_reset_interval ?dc)"
    "10 + interval_or_default (auto_reset_interval ?dc) \<le> (190::int)"
    by (simp_all add: interval_or_default_def)
  have scenario: "trace (run example_config example_library
          [(0, example_baseunit, DeviceEvent example_device DeviceEventCode_Trigger),
           (10, example_baseunit, DeviceEvent example_device DeviceEventCode_Trigger),
           (180, example_baseunit, TimerDue 0), (180, example_baseunit, TimerDue 1),
           (190, example_baseunit, TimerDue 0), (190, example_baseunit, TimerDue 1),
           (400, example_baseunit, TimerDue 0), (400, example_baseunit, TimerDue 1)] init) =
        [Publish (device_topic ?dc @ ''/event_code'')
           (PyDeviceEventCode DeviceEventCode_Trigger) QOS_1 False,
         Publish (device_topic ?dc) (PyOnOff On) QOS_1 True,
         CallLater 0 (interval_or_default (auto_reset_interval ?dc)) (device_id example_device),
         Publish (device_topic ?dc @ ''/event_code'')
           (PyDeviceEventCode DeviceEventCode_Trigger) QOS_1 False,
         Publish (device_topic ?dc) (PyOnOff On) QOS_1 True,
         Cancel 0,
         CallLater 1 (interval_or_default (auto_reset_interval ?dc)) (device_id example_device),
         Publish (device_topic ?dc) (PyOnOff Off) QOS_1 True]"
    using inst [where now = 0, THEN conjunct2, THEN conjunct2, THEN conjunct2,
        THEN conjunct2, THEN conjunct2, THEN conjunct2, THEN mp] dc(1,2) early_ok by blast
  have p1: "filter (\<lambda>t. arg t = 1256634)
        (live_timers (device_on_event example_config 10 example_device DeviceEventCode_Trigger ?s1)) =
       [\<lparr>handle = 1, due = 190, arg = 1256634, cancelled = False\<rparr>]"
    using rearm did by (simp add: example_armed interval_or_default_def)
  have p2: "run_timer example_config 179 0 ?s1 = (None, ?s1)"
    using early by simp
  have p3: "snd (run_timer example_config 180 0 ?s1) =
       init\<lparr>next_handle := 1,
          trace := [Publish ''home/lounge/motion/event_code'' (PyDeviceEventCode DeviceEventCode_Trigger) 1 False,
                    Publish ''home/lounge/motion'' (PyOnOff On) 1 True,
                    CallLater 0 180 1256634,
                    Publish ''home/lounge/motion'' (PyOnOff Off) 1 True]\<rparr>"
    using fire unfolding example_armed by (simp add: QOS_1_def init_def)
  have p4: "publishes (trace (run example_config example_library
          [(0, example_baseunit, DeviceEvent example_device DeviceEventCode_Trigger),
           (10, example_baseunit, DeviceEvent example_device DeviceEventCode_Trigger),
           (180, example_baseunit, TimerDue 0), (180, example_baseunit, TimerDue 1),
           (190, example_baseunit, TimerDue 0), (190, example_baseunit, TimerDue 1),
           (400, example_baseunit, TimerDue 0), (400, example_baseunit, TimerDue 1)] init)) =
       [Publish ''home/lounge/motion/event_code'' (PyDeviceEventCode DeviceEventCode_Trigger) 1 False,
        Publish ''home/lounge/motion'' (PyOnOff On) 1 True,
        Publish ''home/lounge/motion/event_code'' (PyDeviceEventCode DeviceEventCode_Trigger) 1 False,
        Publish ''home/lounge/motion'' (PyOnOff On) 1 True,
        Publish ''home/lounge/motion'' (PyOnOff Off) 1 True]"
    unfolding scenario using did by (simp add: QOS_1_def interval_or_default_def)
  have p5: "auto_reset_handles (snd (async_stop ?s1)) = [] \<and>
      live_timers (snd (async_stop ?s1)) = []"
    using inst [where now = 0, THEN conjunct2, THEN conjunct2, THEN conjunct2,
        THEN conjunct2, THEN conjunct2, THEN conjunct1, THEN mp, OF inv] by auto
  from inv p1 p2 p3 p4 p5 show ?thesis
    by blast
qed

end
